theory Spec2Isabelle
  imports Main "HOL-Library.Sublist" "HOL-Library.AList"
begin

section \<open>Page watcher: a shallow embedding of \<^verbatim>\<open>scripts/watch_page.py\<close>\<close>

text \<open>
  The script fetches one page, reduces it to a signal string, hashes the signal and
  compares the hash with the one kept in \<^verbatim>\<open>state/page_state.json\<close>. Everything it
  does is I/O, so the model is a program over an explicit world: the environment
  variables, the clock, the state file, and the answers of the libraries it calls
  (\<^verbatim>\<open>requests\<close>, \<^verbatim>\<open>smtplib\<close>, \<^verbatim>\<open>bs4\<close>, \<^verbatim>\<open>hashlib\<close>). What the libraries
  answer is a parameter of the model; what the script does with the answer is modelled
  line by line.

  Strings are \<^typ>\<open>string\<close>, one \<^typ>\<open>char\<close> per character; the string methods below
  are Python's on ASCII text. The emoji that open some messages of the script are left
  out of the literals.
\<close>

subsection \<open>Python values and exceptions\<close>

text \<open>
  The values that \<^verbatim>\<open>json.load\<close> returns and that the script keeps in its dictionaries.
  A dictionary is an association list in insertion order; \<^verbatim>\<open>d[k] = v\<close> is
  \<^const>\<open>AList.update\<close>, \<^verbatim>\<open>d.get(k)\<close> is \<^const>\<open>map_of\<close>. Numbers are integers:
  the script computes with no number it reads, and a fraction in the state file would be
  one more value that is neither \<^verbatim>\<open>null\<close> nor a string.
\<close>

datatype pyval =
    PNone
  | PBool bool
  | PInt int
  | PStr string
  | PList "pyval list"
  | PDict "(string \<times> pyval) list"

text \<open>
  The exception classes that matter to the script's \<^verbatim>\<open>except\<close> clauses.
  \<^verbatim>\<open>RequestException\<close> and \<^verbatim>\<open>SMTPException\<close> are subclasses of \<^verbatim>\<open>OSError\<close>
  (\<^verbatim>\<open>IOError\<close> is its alias); \<^verbatim>\<open>JSONDecodeError\<close> and \<^verbatim>\<open>UnicodeDecodeError\<close> are
  unrelated subclasses of \<^verbatim>\<open>ValueError\<close>; \<^verbatim>\<open>KeyboardInterrupt\<close> is the only one
  here that is not a subclass of \<^verbatim>\<open>Exception\<close>.
\<close>

datatype exn =
    RequestException
  | SMTPException
  | OSError
  | JSONDecodeError
  | UnicodeDecodeError
  | ValueError
  | TypeError
  | KeyError
  | KeyboardInterrupt

fun is_RequestException :: "exn \<Rightarrow> bool" where
  "is_RequestException RequestException = True"
| "is_RequestException _ = False"

fun is_IOError :: "exn \<Rightarrow> bool" where
  "is_IOError RequestException = True"
| "is_IOError SMTPException = True"
| "is_IOError OSError = True"
| "is_IOError _ = False"

fun is_JSONDecodeError :: "exn \<Rightarrow> bool" where
  "is_JSONDecodeError JSONDecodeError = True"
| "is_JSONDecodeError _ = False"

fun is_Exception :: "exn \<Rightarrow> bool" where
  "is_Exception KeyboardInterrupt = False"
| "is_Exception _ = True"

subsection \<open>Python's string methods, on ASCII text\<close>

text \<open>\<^verbatim>\<open>str.strip()\<close> removes the characters for which \<^verbatim>\<open>str.isspace\<close> holds.\<close>

definition is_space :: "char \<Rightarrow> bool" where
  "is_space c = (of_char c \<in> {9, 10, 11, 12, 13, 28, 29, 30, 31, 32 :: nat})"

definition strip :: "string \<Rightarrow> string" where
  "strip s = rev (dropWhile is_space (rev (dropWhile is_space s)))"

definition lower_char :: "char \<Rightarrow> char" where
  "lower_char c =
     (if 65 \<le> (of_char c :: nat) \<and> (of_char c :: nat) \<le> 90
      then char_of (of_char c + 32 :: nat) else c)"

definition lower :: "string \<Rightarrow> string" where
  "lower s = map lower_char s"

text \<open>\<^verbatim>\<open>sub in text\<close>: \<open>sub\<close> occurs in \<open>text\<close> as a contiguous run.\<close>

fun py_in :: "string \<Rightarrow> string \<Rightarrow> bool" where
  "py_in sub [] = (sub = [])"
| "py_in sub (c # cs) = (prefix sub (c # cs) \<or> py_in sub cs)"

text \<open>\<^verbatim>\<open>s.split(sep)\<close> for a one-character separator: never empty.\<close>

fun split_on :: "char \<Rightarrow> string \<Rightarrow> string list" where
  "split_on sep [] = [[]]"
| "split_on sep (c # cs) =
     (if c = sep then [] # split_on sep cs
      else (case split_on sep cs of
              [] \<Rightarrow> [[c]]
            | w # ws \<Rightarrow> (c # w) # ws))"

text \<open>\<^verbatim>\<open>sep.join(xs)\<close>.\<close>

fun join :: "string \<Rightarrow> string list \<Rightarrow> string" where
  "join sep [] = []"
| "join sep [x] = x"
| "join sep (x # y # ys) = x @ sep @ join sep (y # ys)"

text \<open>
  \<^verbatim>\<open>int(s)\<close> for a string: surrounding whitespace is dropped, then an optional sign, then
  decimal digits, where single underscores may stand between digits. Anything else raises
  \<^verbatim>\<open>ValueError\<close>, here \<^const>\<open>None\<close>. The whitespace that \<^verbatim>\<open>int\<close> skips on ASCII text
  is narrower than that of \<^verbatim>\<open>str.strip\<close>: tab to carriage return and the space, not the
  separators 28 to 31. A numeral of more than 4300 digits is refused as well (the
  interpreter's default limit on the conversion).
\<close>

definition is_int_space :: "char \<Rightarrow> bool" where
  "is_int_space c = (of_char c \<in> {9, 10, 11, 12, 13, 32 :: nat})"

definition int_strip :: "string \<Rightarrow> string" where
  "int_strip s = rev (dropWhile is_int_space (rev (dropWhile is_int_space s)))"

definition is_digit :: "char \<Rightarrow> bool" where
  "is_digit c = (48 \<le> (of_char c :: nat) \<and> (of_char c :: nat) \<le> 57)"

definition digit_val :: "char \<Rightarrow> nat" where
  "digit_val c = of_char c - 48"

fun digits_go :: "nat \<Rightarrow> string \<Rightarrow> nat option" where
  "digits_go acc [] = Some acc"
| "digits_go acc [c] = (if is_digit c then Some (10 * acc + digit_val c) else None)"
| "digits_go acc (c # d # cs) =
     (if is_digit c then digits_go (10 * acc + digit_val c) (d # cs)
      else if c = CHR ''_'' \<and> is_digit d then digits_go acc (d # cs)
      else None)"

definition digits_value :: "string \<Rightarrow> nat option" where
  "digits_value s =
     (case s of
        [] \<Rightarrow> None
      | c # _ \<Rightarrow>
          if is_digit c \<and> length (filter is_digit s) \<le> 4300 then digits_go 0 s else None)"

definition py_int :: "string \<Rightarrow> int option" where
  "py_int s =
     (case int_strip s of
        [] \<Rightarrow> None
      | c # cs \<Rightarrow>
          if c = CHR ''-'' then map_option (\<lambda>n. - int n) (digits_value cs)
          else if c = CHR ''+'' then map_option int (digits_value cs)
          else map_option int (digits_value (c # cs)))"

text \<open>Truth value of an optional string: \<^verbatim>\<open>None\<close> and \<^verbatim>\<open>""\<close> are false.\<close>

fun truthy :: "string option \<Rightarrow> bool" where
  "truthy None = False"
| "truthy (Some s) = (s \<noteq> [])"

text \<open>\<^verbatim>\<open>a or b\<close> on optional strings.\<close>

definition py_or :: "string option \<Rightarrow> string option \<Rightarrow> string option" where
  "py_or a b = (if truthy a then a else b)"

subsection \<open>The world\<close>

text \<open>
  One SMTP submission (lines 159 to 168) and one Twilio request (lines 196 to 207), as
  the script composes them. The request's \<^verbatim>\<open>Authorization\<close> header is the Base64 of
  \<^verbatim>\<open>sid:token\<close>; the model keeps the two parts.
\<close>

record email =
  smtp_host :: string
  smtp_port :: int
  smtp_user :: string
  smtp_pass :: string
  mail_from :: string
  mail_to :: string
  mail_subject :: string
  mail_body :: string

record whatsapp =
  twilio_sid :: string
  twilio_token :: string
  wa_from :: string
  wa_to :: string
  wa_body :: string

text \<open>
  What \<^verbatim>\<open>open\<close> and \<^verbatim>\<open>json.load\<close> make of an existing state file: \<open>Unreadable\<close>
  cannot be opened or read (\<^verbatim>\<open>OSError\<close>), \<open>Undecodable\<close> holds bytes that are not
  UTF-8 (\<^verbatim>\<open>UnicodeDecodeError\<close>, the file being opened with \<^verbatim>\<open>encoding="utf-8"\<close>),
  \<open>Malformed\<close> holds text that is not JSON (\<^verbatim>\<open>JSONDecodeError\<close>), and \<open>Doc v\<close> holds
  the JSON text of \<open>v\<close>.
\<close>

datatype file_contents =
    Unreadable
  | Undecodable
  | Malformed
  | Doc pyval

text \<open>
  The world of one run. \<open>http_get url k\<close> is what attempt \<open>k\<close> of
  \<^verbatim>\<open>requests.get\<close> followed by \<^verbatim>\<open>raise_for_status\<close> gives: the body text or an
  exception. \<open>smtp_session\<close> and \<open>twilio_post\<close> say whether the submission raises.
  \<open>now_utc_iso\<close> is the time that the function of that name returns.
  \<open>soup_select_text html sel\<close> is the text (\<^verbatim>\<open>get_text(" ", strip=True)\<close>) of the first
  element that \<^verbatim>\<open>select_one(sel)\<close> finds in the parsed page, \<open>soup_page_text html\<close> the
  text of the whole page. \<open>py_str\<close> is \<^verbatim>\<open>str()\<close> as an f-string applies it to a value
  that is not already a string. The operator's interrupt reaches the script while a
  request or a submission blocks: the answer is then \<^verbatim>\<open>KeyboardInterrupt\<close>.
\<close>

record world =
  env :: "string \<Rightarrow> string option"
  now_utc_iso :: string
  http_get :: "string \<Rightarrow> nat \<Rightarrow> exn + string"
  smtp_session :: "email \<Rightarrow> exn option"
  twilio_post :: "whatsapp \<Rightarrow> exn option"
  sha256_hex :: "string \<Rightarrow> string"
  soup_select_text :: "string \<Rightarrow> string \<Rightarrow> string option"
  soup_page_text :: "string \<Rightarrow> string"
  py_str :: "pyval \<Rightarrow> string"

definition getenv :: "world \<Rightarrow> string \<Rightarrow> string option" where
  "getenv w name = env w name"

definition getenv_default :: "world \<Rightarrow> string \<Rightarrow> string \<Rightarrow> string" where
  "getenv_default w name dflt = (case env w name of None \<Rightarrow> dflt | Some v \<Rightarrow> v)"

text \<open>An interpolated value: a string as it is, anything else through \<^verbatim>\<open>str()\<close>.\<close>

definition fstr :: "world \<Rightarrow> pyval \<Rightarrow> string" where
  "fstr w v = (case v of PStr s \<Rightarrow> s | _ \<Rightarrow> py_str w v)"

subsection \<open>Programs: a trace, the state file, and a result\<close>

text \<open>
  What a run does that can be seen from outside: requests, pauses, submissions, writes of
  the state file, and the lines it prints that the specification speaks of. Other
  \<^verbatim>\<open>print\<close> calls are not recorded.
\<close>

datatype logline =
    StateLoadWarning
  | EmailNotConfigured
  | EmailSent
  | EmailFailed
  | WhatsAppNotConfigured
  | WhatsAppSent
  | WhatsAppFailed
  | ChangeDetected string
  | NoNotificationsWarning
  | MissingUrlError
  | MissingStrategyError
  | TestNotice
  | BaselineEstablished
  | NoChangeDetected
  | NetworkErrorLog
  | InterruptedLog
  | UnexpectedErrorLog

datatype event =
    HttpGet string nat
  | Sleep nat
  | SmtpSend email
  | TwilioPost whatsapp
  | SaveState pyval
  | Log logline

text \<open>
  A computation stops early by raising an exception or by \<^verbatim>\<open>sys.exit(n)\<close>, which is
  \<^verbatim>\<open>SystemExit\<close> and passes every \<^verbatim>\<open>except\<close> clause of the script.
\<close>

datatype abort =
    Raised exn
  | SysExit nat

text \<open>
  A program takes the state file (\<^const>\<open>None\<close>: no file) and gives its trace, the
  state file afterwards, and how it ended.
\<close>

type_synonym 'a prog =
  "file_contents option \<Rightarrow> event list \<times> file_contents option \<times> (abort + 'a)"

definition ret :: "'a \<Rightarrow> 'a prog" where
  "ret x = (\<lambda>fs. ([], fs, Inr x))"

definition raise :: "exn \<Rightarrow> 'a prog" where
  "raise e = (\<lambda>fs. ([], fs, Inl (Raised e)))"

definition sys_exit :: "nat \<Rightarrow> 'a prog" where
  "sys_exit n = (\<lambda>fs. ([], fs, Inl (SysExit n)))"

definition emit :: "event \<Rightarrow> unit prog" where
  "emit ev = (\<lambda>fs. ([ev], fs, Inr ()))"

definition then_do :: "'a prog \<Rightarrow> ('a \<Rightarrow> 'b prog) \<Rightarrow> 'b prog" where
  "then_do m f =
     (\<lambda>fs. case m fs of
             (tr, fs', Inl a) \<Rightarrow> (tr, fs', Inl a)
           | (tr, fs', Inr x) \<Rightarrow>
               (case f x fs' of (tr', fs'', r) \<Rightarrow> (tr @ tr', fs'', r)))"

text \<open>\<^verbatim>\<open>try: m except C as e: h\<close>, the class \<open>C\<close> given as a predicate.\<close>

definition try_except :: "'a prog \<Rightarrow> (exn \<Rightarrow> bool) \<Rightarrow> (exn \<Rightarrow> 'a prog) \<Rightarrow> 'a prog" where
  "try_except m handles h =
     (\<lambda>fs. case m fs of
             (tr, fs', Inl (Raised e)) \<Rightarrow>
               (if handles e
                then (case h e fs' of (tr', fs'', r) \<Rightarrow> (tr @ tr', fs'', r))
                else (tr, fs', Inl (Raised e)))
           | (tr, fs', r) \<Rightarrow> (tr, fs', r))"

subsection \<open>\<^verbatim>\<open>load_state\<close>, \<^verbatim>\<open>save_state\<close>, \<^verbatim>\<open>sha256\<close> (lines 26 to 47)\<close>

definition default_state :: pyval where
  "default_state =
     PDict [(''last_hash'', PNone), (''last_match'', PNone), (''last_checked'', PNone)]"

fun read_json :: "file_contents \<Rightarrow> exn + pyval" where
  "read_json Unreadable = Inl OSError"
| "read_json Undecodable = Inl UnicodeDecodeError"
| "read_json Malformed = Inl JSONDecodeError"
| "read_json (Doc v) = Inr v"

text \<open>Lines 31 and 32: \<^verbatim>\<open>open\<close> and \<^verbatim>\<open>json.load\<close>.\<close>

definition open_and_load :: "pyval prog" where
  "open_and_load =
     (\<lambda>fs. case fs of
             None \<Rightarrow> ([], fs, Inl (Raised OSError))
           | Some c \<Rightarrow>
               (case read_json c of
                  Inl e \<Rightarrow> ([], fs, Inl (Raised e))
                | Inr v \<Rightarrow> ([], fs, Inr v)))"

definition path_exists :: "bool prog" where
  "path_exists = (\<lambda>fs. ([], fs, Inr (fs \<noteq> None)))"

definition load_state :: "pyval prog" where
  "load_state =
     then_do path_exists (\<lambda>ex.
       if \<not> ex then ret default_state
       else try_except open_and_load
              (\<lambda>e. is_JSONDecodeError e \<or> is_IOError e)
              (\<lambda>e. then_do (emit (Log StateLoadWarning)) (\<lambda>_. ret default_state)))"

text \<open>
  \<^verbatim>\<open>save_state\<close> writes the JSON text of the state. The write itself is taken to
  succeed.
\<close>

definition save_state :: "pyval \<Rightarrow> unit prog" where
  "save_state state = (\<lambda>fs. ([SaveState state], Some (Doc state), Inr ()))"

definition sha256 :: "world \<Rightarrow> string \<Rightarrow> string" where
  "sha256 w s = sha256_hex w s"

subsection \<open>\<^verbatim>\<open>fetch\<close> (lines 50 to 82)\<close>

text \<open>
  The loop \<^verbatim>\<open>for attempt in range(retries)\<close>, from \<open>attempt\<close> on. The last line,
  \<^verbatim>\<open>return ""\<close>, is reached when the range is empty.
\<close>

function fetch_from :: "world \<Rightarrow> string \<Rightarrow> nat \<Rightarrow> nat \<Rightarrow> string prog" where
  "fetch_from w url retries attempt =
     (if attempt < retries then
        then_do (emit (HttpGet url attempt)) (\<lambda>_.
          case http_get w url attempt of
            Inr text \<Rightarrow> ret text
          | Inl e \<Rightarrow>
              if is_RequestException e then
                (if attempt = retries - 1 then raise e
                 else then_do (emit (Sleep (2 ^ attempt))) (\<lambda>_.
                        fetch_from w url retries (attempt + 1)))
              else raise e)
      else ret [])"
  by pat_completeness auto
termination
  by (relation "measure (\<lambda>(w, url, retries, attempt). retries - attempt)") auto

declare fetch_from.simps [simp del]

definition fetch :: "world \<Rightarrow> string \<Rightarrow> nat \<Rightarrow> string prog" where
  "fetch w url retries = fetch_from w url retries 0"

subsection \<open>\<^verbatim>\<open>extract_signal\<close> (lines 85 to 137)\<close>

text \<open>The loop of lines 114 to 117, appending to \<open>matches\<close> in order.\<close>

fun match_keywords :: "string \<Rightarrow> string list \<Rightarrow> string list" where
  "match_keywords page_text_lower [] = []"
| "match_keywords page_text_lower (kw # kws) =
     (let kw_clean = strip kw in
        if kw_clean \<noteq> [] \<and> py_in (lower kw_clean) page_text_lower
        then kw_clean # match_keywords page_text_lower kws
        else match_keywords page_text_lower kws)"

text \<open>\<^verbatim>\<open>if keywords:\<close> is false for \<^verbatim>\<open>None\<close> and for the empty list.\<close>

fun keywords_list :: "string list option \<Rightarrow> string list" where
  "keywords_list None = []"
| "keywords_list (Some kws) = kws"

text \<open>Lines 102 to 106, taken when \<^verbatim>\<open>if selector:\<close> holds.\<close>

definition selector_signal ::
  "world \<Rightarrow> string \<Rightarrow> string \<Rightarrow> string \<times> string \<times> (string \<times> pyval) list" where
  "selector_signal w html sel =
     (let text = (case soup_select_text w html sel of Some t \<Rightarrow> t | None \<Rightarrow> []);
          summary =
            (if text \<noteq> []
             then ''Selector '' @ [CHR 0x27] @ sel @ [CHR 0x27] @ '' matched: ''
                  @ [CHR 0x27] @ take 150 text @ ''...'' @ [CHR 0x27]
             else ''Selector '' @ [CHR 0x27] @ sel @ [CHR 0x27] @ '' not found'');
          metadata =
            [(''method'', PStr ''selector''),
             (''selector'', PStr sel),
             (''found'', PBool (text \<noteq> [])),
             (''length'', PInt (int (length text)))]
      in (text, summary, metadata))"

text \<open>Lines 109 to 137.\<close>

definition keyword_signal ::
  "world \<Rightarrow> string \<Rightarrow> string list option \<Rightarrow> string \<times> string \<times> (string \<times> pyval) list" where
  "keyword_signal w html keywords =
     (let page_text = soup_page_text w html;
          page_text_lower = lower page_text;
          matches = match_keywords page_text_lower (keywords_list keywords);
          signal = page_text;
          summary =
            ''Keywords matched: ''
            @ (if matches \<noteq> [] then py_str w (PList (map PStr matches)) else ''none'')
            @ '' | Page length: '' @ py_str w (PInt (int (length page_text)))
            @ '' chars | Keywords monitored: ''
            @ py_str w (PInt (int (length (keywords_list keywords))));
          metadata =
            [(''method'', PStr ''keywords''),
             (''total_keywords'', PInt (int (length (keywords_list keywords)))),
             (''matched_keywords'', PList (map PStr matches)),
             (''page_length'', PInt (int (length page_text)))]
      in (signal, summary, metadata))"

definition extract_signal ::
  "world \<Rightarrow> string \<Rightarrow> string option \<Rightarrow> string list option
     \<Rightarrow> string \<times> string \<times> (string \<times> pyval) list" where
  "extract_signal w html selector keywords =
     (case selector of
        Some sel \<Rightarrow>
          if sel \<noteq> [] then selector_signal w html sel
          else keyword_signal w html keywords
      | None \<Rightarrow> keyword_signal w html keywords)"

subsection \<open>\<^verbatim>\<open>send_email\<close> and \<^verbatim>\<open>send_whatsapp\<close> (lines 140 to 213)\<close>

text \<open>Lines 159 to 168: compose the message, open the session, log in, send.\<close>

definition smtp_submit :: "world \<Rightarrow> email \<Rightarrow> unit prog" where
  "smtp_submit w msg =
     then_do (emit (SmtpSend msg)) (\<lambda>_.
       case smtp_session w msg of
         None \<Rightarrow> ret ()
       | Some e \<Rightarrow> raise e)"

text \<open>
  Line 148 converts the port before the check of line 154 and outside the \<^verbatim>\<open>try\<close> of
  line 158: a value that \<^verbatim>\<open>int\<close> refuses raises \<^verbatim>\<open>ValueError\<close> out of the function.
  The default \<^verbatim>\<open>"587"\<close> stands in only when the variable is unset.
\<close>

definition send_email :: "world \<Rightarrow> string \<Rightarrow> string \<Rightarrow> bool prog" where
  "send_email w subject body =
     (let host = getenv w ''SMTP_HOST'' in
      case py_int (getenv_default w ''SMTP_PORT'' ''587'') of
        None \<Rightarrow> raise ValueError
      | Some port \<Rightarrow>
          (let user = getenv w ''SMTP_USER'';
               pwd = getenv w ''SMTP_PASS'';
               to = getenv w ''EMAIL_TO'';
               from_addr = py_or (getenv w ''EMAIL_FROM'') user
           in if \<not> list_all truthy [host, user, pwd, to, from_addr] then
                then_do (emit (Log EmailNotConfigured)) (\<lambda>_. ret False)
              else
                try_except
                  (then_do
                     (smtp_submit w
                        \<lparr>smtp_host = the host, smtp_port = port, smtp_user = the user,
                         smtp_pass = the pwd, mail_from = the from_addr, mail_to = the to,
                         mail_subject = subject, mail_body = body\<rparr>)
                     (\<lambda>_. then_do (emit (Log EmailSent)) (\<lambda>_. ret True)))
                  is_Exception
                  (\<lambda>e. then_do (emit (Log EmailFailed)) (\<lambda>_. ret False))))"

text \<open>Lines 194 to 207: one POST to the provider, then \<^verbatim>\<open>raise_for_status\<close>.\<close>

definition twilio_submit :: "world \<Rightarrow> whatsapp \<Rightarrow> unit prog" where
  "twilio_submit w msg =
     then_do (emit (TwilioPost msg)) (\<lambda>_.
       case twilio_post w msg of
         None \<Rightarrow> ret ()
       | Some e \<Rightarrow> raise e)"

definition send_whatsapp :: "world \<Rightarrow> string \<Rightarrow> string \<Rightarrow> bool prog" where
  "send_whatsapp w subject body =
     (let sid = getenv w ''TWILIO_ACCOUNT_SID'';
          token = getenv w ''TWILIO_AUTH_TOKEN'';
          w_from = getenv w ''WHATSAPP_FROM'';
          w_to = getenv w ''WHATSAPP_TO''
      in if \<not> list_all truthy [sid, token, w_from, w_to] then
           then_do (emit (Log WhatsAppNotConfigured)) (\<lambda>_. ret False)
         else
           try_except
             (then_do
                (twilio_submit w
                   \<lparr>twilio_sid = the sid, twilio_token = the token, wa_from = the w_from,
                    wa_to = the w_to, wa_body = subject @ [CHR 0x0A, CHR 0x0A] @ body\<rparr>)
                (\<lambda>_. then_do (emit (Log WhatsAppSent)) (\<lambda>_. ret True)))
             is_Exception
             (\<lambda>e. then_do (emit (Log WhatsAppFailed)) (\<lambda>_. ret False)))"

subsection \<open>\<^verbatim>\<open>send_notifications\<close> (lines 216 to 242)\<close>

text \<open>Truth value of a Python value.\<close>

fun py_truthy :: "pyval \<Rightarrow> bool" where
  "py_truthy PNone = False"
| "py_truthy (PBool b) = b"
| "py_truthy (PInt n) = (n \<noteq> 0)"
| "py_truthy (PStr s) = (s \<noteq> [])"
| "py_truthy (PList vs) = (vs \<noteq> [])"
| "py_truthy (PDict d) = (d \<noteq> [])"

fun str_item :: "pyval \<Rightarrow> string option" where
  "str_item (PStr s) = Some s"
| "str_item _ = None"

text \<open>
  \<^verbatim>\<open>', '.join(v)\<close>: the items of a list must be strings, a string gives its characters,
  a dictionary its keys; otherwise \<^verbatim>\<open>TypeError\<close>.
\<close>

fun join_value :: "string \<Rightarrow> pyval \<Rightarrow> exn + string" where
  "join_value sep (PList vs) =
     (if list_all (\<lambda>v. str_item v \<noteq> None) vs
      then Inr (join sep (map (\<lambda>v. the (str_item v)) vs))
      else Inl TypeError)"
| "join_value sep (PStr s) = Inr (join sep (map (\<lambda>c. [c]) s))"
| "join_value sep (PDict d) = Inr (join sep (map fst d))"
| "join_value sep _ = Inl TypeError"

definition dict_get :: "(string \<times> pyval) list \<Rightarrow> string \<Rightarrow> pyval \<Rightarrow> pyval" where
  "dict_get d k dflt = (case map_of d k of None \<Rightarrow> dflt | Some v \<Rightarrow> v)"

definition notification_subject :: string where
  "notification_subject = ''Page Watcher Alert: Change Detected!''"

definition notification_body :: "world \<Rightarrow> string \<Rightarrow> pyval \<Rightarrow> string \<Rightarrow> pyval \<Rightarrow> string" where
  "notification_body w url checked matched_text method =
     ''The monitored page has changed!'' @ [CHR 0x0A, CHR 0x0A]
     @ ''URL: '' @ url @ [CHR 0x0A]
     @ ''Time (UTC): '' @ fstr w checked @ [CHR 0x0A]
     @ ''Matched keywords: '' @ matched_text @ [CHR 0x0A]
     @ ''Detection method: '' @ fstr w method @ [CHR 0x0A, CHR 0x0A]
     @ ''The page content has been modified.'' @ [CHR 0x0A, CHR 0x0A]
     @ ''Check the page now: '' @ url @ [CHR 0x0A]"

definition send_notifications ::
  "world \<Rightarrow> string \<Rightarrow> (string \<times> pyval) list \<Rightarrow> (string \<times> pyval) list \<Rightarrow> unit prog" where
  "send_notifications w url state metadata =
     (let matched = dict_get metadata ''matched_keywords'' (PList []) in
      case map_of state ''last_checked'' of
        None \<Rightarrow> raise KeyError
      | Some checked \<Rightarrow>
          (case (if py_truthy matched then join_value '', '' matched else Inr ''N/A'') of
             Inl e \<Rightarrow> raise e
           | Inr matched_text \<Rightarrow>
               (let subject = notification_subject;
                    body = notification_body w url checked matched_text
                             (dict_get metadata ''method'' (PStr ''unknown''))
                in then_do (emit (Log (ChangeDetected body))) (\<lambda>_.
                   then_do (send_email w subject body) (\<lambda>email_sent.
                   then_do (send_whatsapp w subject body) (\<lambda>whatsapp_sent.
                     if \<not> email_sent \<and> \<not> whatsapp_sent
                     then emit (Log NoNotificationsWarning)
                     else ret ()))))))"

subsection \<open>\<^verbatim>\<open>main\<close> (lines 245 to 338)\<close>

text \<open>
  How a run ended. The first four name the \<^verbatim>\<open>return\<close> of \<^verbatim>\<open>main\<close> that was reached
  (lines 282, 304, 316 and 322), the others the \<^verbatim>\<open>sys.exit\<close>.
\<close>

datatype run_outcome =
    ForcedTest
  | Baseline
  | Changed
  | Unchanged
  | NetworkFailure
  | ConfigError
  | Interrupted
  | Fatal

text \<open>Line 256: the comma-separated keywords, stripped, the empty ones dropped.\<close>

definition parse_keywords :: "string \<Rightarrow> string list option" where
  "parse_keywords keywords_raw =
     (let ks = map strip (filter (\<lambda>k. strip k \<noteq> []) (split_on CHR '','' keywords_raw))
      in if ks = [] then None else Some ks)"

text \<open>
  Lines 292 to 322, from the loaded state and the extracted signal on. Line 295 assigns
  into \<open>state\<close>, which raises \<^verbatim>\<open>TypeError\<close> when the state file held JSON that is not an
  object.
\<close>

definition detect ::
  "world \<Rightarrow> string \<Rightarrow> pyval \<Rightarrow> string \<times> string \<times> (string \<times> pyval) list
     \<Rightarrow> run_outcome prog" where
  "detect w url state extracted =
     (case extracted of (signal_text, summary, metadata) \<Rightarrow>
        (let current_hash = sha256 w signal_text in
         case state of
           PDict d0 \<Rightarrow>
             (let d = AList.update ''last_checked'' (PStr (now_utc_iso w)) d0 in
              if dict_get d ''last_hash'' PNone = PNone then
                then_do
                  (save_state
                     (PDict (AList.update ''last_match'' (PStr summary)
                               (AList.update ''last_hash'' (PStr current_hash) d))))
                  (\<lambda>_. then_do (emit (Log BaselineEstablished)) (\<lambda>_. ret Baseline))
              else if PStr current_hash \<noteq> dict_get d ''last_hash'' PNone then
                then_do (send_notifications w url d metadata) (\<lambda>_.
                then_do
                  (save_state
                     (PDict (AList.update ''last_match'' (PStr summary)
                               (AList.update ''last_hash'' (PStr current_hash) d))))
                  (\<lambda>_. ret Changed))
              else
                then_do (emit (Log NoChangeDetected)) (\<lambda>_.
                then_do
                  (save_state (PDict (AList.update ''last_match'' (PStr summary) d)))
                  (\<lambda>_. ret Unchanged)))
         | _ \<Rightarrow> raise TypeError))"

text \<open>The configuration that lines 249 to 262 read from the environment.\<close>

definition watch_url :: "world \<Rightarrow> string option" where
  "watch_url w = getenv w ''WATCH_URL''"

definition watch_selector :: "world \<Rightarrow> string option" where
  "watch_selector w = py_or (getenv w ''WATCH_SELECTOR'') None"

definition watch_keywords :: "world \<Rightarrow> string list option" where
  "watch_keywords w = parse_keywords (getenv_default w ''WATCH_KEYWORDS'' [])"

definition force_notify :: "world \<Rightarrow> bool" where
  "force_notify w = (lower (getenv_default w ''FORCE_NOTIFY'' []) = ''true'')"

text \<open>The body of the \<^verbatim>\<open>try\<close>, lines 248 to 322.\<close>

definition main_body :: "world \<Rightarrow> run_outcome prog" where
  "main_body w =
     (let url = watch_url w in
      if \<not> truthy url then
        then_do (emit (Log MissingUrlError)) (\<lambda>_. sys_exit 2)
      else
        (let selector = watch_selector w;
             keywords = watch_keywords w
         in if \<not> truthy selector \<and> keywords_list keywords = [] then
              then_do (emit (Log MissingStrategyError)) (\<lambda>_. sys_exit 2)
            else if force_notify w then
              then_do (emit (Log TestNotice)) (\<lambda>_.
              then_do
                (send_notifications w (the url)
                   [(''last_checked'', PStr (now_utc_iso w))]
                   [(''method'', PStr ''test''),
                    (''matched_keywords'', PList [PStr ''TEST''])])
                (\<lambda>_. ret ForcedTest))
            else
              then_do load_state (\<lambda>state.
              then_do (fetch w (the url) 3) (\<lambda>html.
                detect w (the url) state
                  (extract_signal w html selector keywords)))))"

text \<open>
  What a run leaves behind: its trace, the state file, the exit status of the process and
  the outcome.
\<close>

record run_result =
  trace :: "event list"
  file_after :: "file_contents option"
  exit_status :: nat
  outcome :: run_outcome

text \<open>
  The \<^verbatim>\<open>except\<close> clauses of lines 324 to 338, in their order. \<^verbatim>\<open>sys.exit(2)\<close> of the
  body passes all three. An exception that none of them caught would end the process with
  status 1 as well.
\<close>

definition main :: "world \<Rightarrow> file_contents option \<Rightarrow> run_result" where
  "main w fs =
     (case main_body w fs of
        (tr, fs', Inr oc) \<Rightarrow>
          \<lparr>trace = tr, file_after = fs', exit_status = 0, outcome = oc\<rparr>
      | (tr, fs', Inl (SysExit n)) \<Rightarrow>
          \<lparr>trace = tr, file_after = fs', exit_status = n, outcome = ConfigError\<rparr>
      | (tr, fs', Inl (Raised e)) \<Rightarrow>
          if is_RequestException e then
            \<lparr>trace = tr @ [Log NetworkErrorLog], file_after = fs', exit_status = 0,
             outcome = NetworkFailure\<rparr>
          else if e = KeyboardInterrupt then
            \<lparr>trace = tr @ [Log InterruptedLog], file_after = fs', exit_status = 130,
             outcome = Interrupted\<rparr>
          else if is_Exception e then
            \<lparr>trace = tr @ [Log UnexpectedErrorLog], file_after = fs', exit_status = 1,
             outcome = Fatal\<rparr>
          else
            \<lparr>trace = tr, file_after = fs', exit_status = 1, outcome = Fatal\<rparr>)"

subsection \<open>Runs one after another\<close>

text \<open>
  The scheduler starts the script again and again; each run has a world of its own and
  finds the state file as the run before left it.
\<close>

fun history :: "file_contents option \<Rightarrow> world list \<Rightarrow> run_result list" where
  "history fs [] = []"
| "history fs (w # ws) = main w fs # history (file_after (main w fs)) ws"

fun final_file :: "file_contents option \<Rightarrow> world list \<Rightarrow> file_contents option" where
  "final_file fs [] = fs"
| "final_file fs (w # ws) = final_file (file_after (main w fs)) ws"

text \<open>The persisted \<^verbatim>\<open>last_hash\<close>: \<^const>\<open>None\<close> when there is none or it is \<^verbatim>\<open>null\<close>.\<close>

definition last_hash :: "file_contents option \<Rightarrow> pyval option" where
  "last_hash fs =
     (case fs of
        Some (Doc (PDict d)) \<Rightarrow>
          (case map_of d ''last_hash'' of
             Some v \<Rightarrow> if v = PNone then None else Some v
           | None \<Rightarrow> None)
      | _ \<Rightarrow> None)"

definition last_match :: "file_contents option \<Rightarrow> pyval option" where
  "last_match fs =
     (case fs of
        Some (Doc (PDict d)) \<Rightarrow> map_of d ''last_match''
      | _ \<Rightarrow> None)"

text \<open>A run completed the check: it classified the page and saved the state.\<close>

definition completed :: "run_result \<Rightarrow> bool" where
  "completed r = (outcome r = Baseline \<or> outcome r = Changed \<or> outcome r = Unchanged)"

subsection \<open>Vocabulary of the properties\<close>

text \<open>The strings listed under \<^verbatim>\<open>matched_keywords\<close> in the metadata.\<close>

definition reported_matches :: "(string \<times> pyval) list \<Rightarrow> string list" where
  "reported_matches metadata =
     (case map_of metadata ''matched_keywords'' of
        Some (PList vs) \<Rightarrow> List.map_filter str_item vs
      | _ \<Rightarrow> [])"

text \<open>
  The four settings without which no mail is sent, and the message that lines 159 to 163
  compose once the port is known. The sender is \<^verbatim>\<open>EMAIL_FROM\<close>, or the SMTP user when
  that is unset or empty (line 152).
\<close>

definition email_configured :: "world \<Rightarrow> bool" where
  "email_configured w =
     list_all truthy
       [getenv w ''SMTP_HOST'', getenv w ''SMTP_USER'', getenv w ''SMTP_PASS'',
        getenv w ''EMAIL_TO'']"

definition email_of :: "world \<Rightarrow> int \<Rightarrow> string \<Rightarrow> string \<Rightarrow> email" where
  "email_of w port subject body =
     \<lparr>smtp_host = the (getenv w ''SMTP_HOST''), smtp_port = port,
      smtp_user = the (getenv w ''SMTP_USER''), smtp_pass = the (getenv w ''SMTP_PASS''),
      mail_from = the (py_or (getenv w ''EMAIL_FROM'') (getenv w ''SMTP_USER'')),
      mail_to = the (getenv w ''EMAIL_TO''),
      mail_subject = subject, mail_body = body\<rparr>"

text \<open>The same for the messaging channel (lines 184 to 202).\<close>

definition whatsapp_configured :: "world \<Rightarrow> bool" where
  "whatsapp_configured w =
     list_all truthy
       [getenv w ''TWILIO_ACCOUNT_SID'', getenv w ''TWILIO_AUTH_TOKEN'',
        getenv w ''WHATSAPP_FROM'', getenv w ''WHATSAPP_TO'']"

definition whatsapp_of :: "world \<Rightarrow> string \<Rightarrow> string \<Rightarrow> whatsapp" where
  "whatsapp_of w subject body =
     \<lparr>twilio_sid = the (getenv w ''TWILIO_ACCOUNT_SID''),
      twilio_token = the (getenv w ''TWILIO_AUTH_TOKEN''),
      wa_from = the (getenv w ''WHATSAPP_FROM''), wa_to = the (getenv w ''WHATSAPP_TO''),
      wa_body = subject @ [CHR 0x0A, CHR 0x0A] @ body\<rparr>"

text \<open>
  For the fetcher: the requests in a trace, an attempt that ended in a request exception,
  and the trace of the attempts \<open>a\<close> to \<open>k\<close> when all but the last are followed by their
  pause: after attempt \<open>j\<close> the pause is \<open>2 ^ j\<close> seconds.
\<close>

fun is_HttpGet :: "event \<Rightarrow> bool" where
  "is_HttpGet (HttpGet url k) = True"
| "is_HttpGet _ = False"

fun request_failed :: "exn + string \<Rightarrow> bool" where
  "request_failed (Inl e) = is_RequestException e"
| "request_failed (Inr body) = False"

definition attempts_through :: "string \<Rightarrow> nat \<Rightarrow> nat \<Rightarrow> event list" where
  "attempts_through url a k =
     concat (map (\<lambda>j. [HttpGet url j, Sleep (2 ^ j)]) [a..<k]) @ [HttpGet url k]"

text \<open>A program that leaves the state file as it is and never calls \<^verbatim>\<open>sys.exit\<close>.\<close>

definition inert :: "'a prog \<Rightarrow> bool" where
  "inert m = (\<forall>fs. fst (snd (m fs)) = fs \<and> (\<forall>n. snd (snd (m fs)) \<noteq> Inl (SysExit n)))"

text \<open>
  The configuration that lines 250 and 258 accept: a target URL, and a selector or at
  least one keyword.
\<close>

definition config_ok :: "world \<Rightarrow> bool" where
  "config_ok w =
     (truthy (watch_url w) \<and> (truthy (watch_selector w) \<or> watch_keywords w \<noteq> None))"

subsection \<open>Example worlds\<close>

text \<open>
  A world in which nothing is configured and every library call succeeds; the others
  differ from it in the environment or in what a library answers.
\<close>

definition quiet_world :: world where
  "quiet_world =
     \<lparr>env = Map.empty,
      now_utc_iso = ''2024-05-01T12:00:00+00:00'',
      http_get = (\<lambda>url k. Inr ''<p>huge sale today</p>''),
      smtp_session = (\<lambda>_. None),
      twilio_post = (\<lambda>_. None),
      sha256_hex = (\<lambda>s. ''sha256:'' @ s),
      soup_select_text = (\<lambda>html sel. None),
      soup_page_text = (\<lambda>html. ''huge sale today''),
      py_str = (\<lambda>v. ''<value>'')\<rparr>"

definition watch_world :: world where
  "watch_world =
     quiet_world\<lparr>env := map_of
       [(''WATCH_URL'', ''https://example.org''), (''WATCH_KEYWORDS'', ''Sale'')]\<rparr>"

definition mail_world :: world where
  "mail_world =
     quiet_world\<lparr>env := map_of
       [(''SMTP_HOST'', ''smtp.example.org''), (''SMTP_USER'', ''watcher''),
        (''SMTP_PASS'', ''secret''), (''EMAIL_TO'', ''ops@example.org'')]\<rparr>"

text \<open>Both channels configured, and the mail server refusing the submission.\<close>

definition mail_down_world :: world where
  "mail_down_world =
     quiet_world\<lparr>env := map_of
       [(''SMTP_HOST'', ''smtp.example.org''), (''SMTP_USER'', ''watcher''),
        (''SMTP_PASS'', ''secret''), (''EMAIL_TO'', ''ops@example.org''),
        (''TWILIO_ACCOUNT_SID'', ''AC1''), (''TWILIO_AUTH_TOKEN'', ''token''),
        (''WHATSAPP_FROM'', ''whatsapp:+1''), (''WHATSAPP_TO'', ''whatsapp:+2'')],
       smtp_session := (\<lambda>msg. Some SMTPException)\<rparr>"

text \<open>Two failed requests, then the page; and a network that is down.\<close>

definition flaky_world :: world where
  "flaky_world =
     quiet_world\<lparr>http_get := (\<lambda>url k. if k < 2 then Inl RequestException else Inr ''<p>ok</p>'')\<rparr>"

definition offline_world :: world where
  "offline_world = watch_world\<lparr>http_get := (\<lambda>url k. Inl RequestException)\<rparr>"

text \<open>The operator interrupts the first request.\<close>

definition interrupted_world :: world where
  "interrupted_world = watch_world\<lparr>http_get := (\<lambda>url k. Inl KeyboardInterrupt)\<rparr>"

text \<open>
  \<^verbatim>\<open>SMTP_PORT\<close> set to the empty string, as a workflow does that passes a secret which
  is not defined; the messaging channel is configured in full.
\<close>

definition empty_port_world :: world where
  "empty_port_world =
     quiet_world\<lparr>env := map_of
       [(''WATCH_URL'', ''https://example.org''), (''WATCH_KEYWORDS'', ''Sale''),
        (''SMTP_PORT'', []),
        (''TWILIO_ACCOUNT_SID'', ''AC1''), (''TWILIO_AUTH_TOKEN'', ''token''),
        (''WHATSAPP_FROM'', ''whatsapp:+1''), (''WHATSAPP_TO'', ''whatsapp:+2'')]\<rparr>"

text \<open>The test mode, with nothing else configured and with the empty port.\<close>

definition forced_world :: world where
  "forced_world =
     quiet_world\<lparr>env := map_of
       [(''WATCH_URL'', ''https://example.org''), (''WATCH_KEYWORDS'', ''Sale''),
        (''FORCE_NOTIFY'', ''TRUE'')]\<rparr>"

definition empty_port_forced_world :: world where
  "empty_port_forced_world =
     quiet_world\<lparr>env := map_of
       [(''WATCH_URL'', ''https://example.org''), (''WATCH_KEYWORDS'', ''Sale''),
        (''FORCE_NOTIFY'', ''true''), (''SMTP_PORT'', []),
        (''TWILIO_ACCOUNT_SID'', ''AC1''), (''TWILIO_AUTH_TOKEN'', ''token''),
        (''WHATSAPP_FROM'', ''whatsapp:+1''), (''WHATSAPP_TO'', ''whatsapp:+2'')]\<rparr>"

text \<open>Two state files: one left by a run on an older page, one by a run on this page.\<close>

definition old_state :: file_contents where
  "old_state = Doc (PDict [(''last_hash'', PStr ''sha256:old''), (''last_match'', PStr ''before''),
                           (''last_checked'', PStr ''2024-04-30T12:00:00+00:00'')])"

definition same_state :: file_contents where
  "same_state = Doc (PDict [(''last_hash'', PStr ''sha256:huge sale today'')])"

section \<open>Properties\<close>

subsection \<open>Auxiliary facts\<close>

lemmas prog_defs = ret_def raise_def sys_exit_def emit_def then_do_def try_except_def

lemma set_match_keywords:
  "set (match_keywords t kws) =
     {strip kw | kw. kw \<in> set kws \<and> strip kw \<noteq> [] \<and> py_in (lower (strip kw)) t}"
  by (induction kws) (auto simp: Let_def)

lemma map_filter_str_item [simp]: "List.map_filter str_item (map PStr xs) = xs"
  by (induction xs) (simp_all add: List.map_filter_simps)

lemma strip_blank: "strip '' '' = []"
  by (simp add: strip_def is_space_def)

lemma strip_Sale: "strip ''Sale'' = ''Sale''"
  by (simp add: strip_def is_space_def)

lemma lower_Nil: "lower [] = []"
  by (simp add: lower_def)

lemma py_in_Nil: "py_in [] t"
  by (cases t) simp_all

lemma lower_Sale: "lower ''Sale'' = ''sale''"
  by code_simp

lemma lower_text: "lower ''huge sale today'' = ''huge sale today''"
  by code_simp

lemma Sale_in_text: "py_in (lower ''Sale'') (lower ''huge sale today'')"
  by (simp add: lower_Sale lower_text)

lemma lower_true: "lower ''true'' = ''true''" "lower ''TRUE'' = ''true''"
  by code_simp+

lemma py_int_587: "py_int ''587'' = Some 587"
  by (simp add: py_int_def int_strip_def is_int_space_def digits_value_def is_digit_def
        digit_val_def)

lemma py_int_separator: "py_int (CHR 0x1C # ''587'') = None"
  by (simp add: py_int_def int_strip_def is_int_space_def digits_value_def is_digit_def)

lemma py_int_empty: "py_int [] = None"
  by (simp add: py_int_def int_strip_def)

lemma parse_Sale: "parse_keywords ''Sale'' = Some [''Sale'']"
  by (simp add: parse_keywords_def strip_Sale)

lemma keywords_list_parse: "keywords_list (parse_keywords s) = [] \<longleftrightarrow> parse_keywords s = None"
  by (simp add: parse_keywords_def Let_def)

lemma dropWhile_rev_strip:
  "dropWhile P (rev (dropWhile P (rev (dropWhile P s)))) = rev (dropWhile P (rev (dropWhile P s)))"
proof -
  define u where "u = dropWhile P s"
  define v where "v = rev (dropWhile P (rev u))"
  have "dropWhile P v = v"
  proof (cases v)
    case Nil
    then show ?thesis by simp
  next
    case (Cons x xs)
    have "\<exists>zs. u = v @ zs"
      unfolding v_def
      by (metis append_take_drop_id dropWhile_eq_drop rev_append rev_rev_ident)
    then obtain zs where "u = v @ zs" by blast
    with Cons have "u \<noteq> []" and "hd u = x" by simp_all
    then have "\<not> P x" unfolding u_def using hd_dropWhile by metis
    with Cons show ?thesis by simp
  qed
  then show ?thesis by (simp add: u_def v_def)
qed

lemma strip_strip: "strip (strip s) = strip s"
  by (simp add: strip_def dropWhile_rev_strip)

lemma parse_keywords_clean:
  assumes "parse_keywords raw = Some ks" and "k \<in> set ks"
  shows "strip k = k \<and> k \<noteq> []"
  using assms by (auto simp: parse_keywords_def Let_def strip_strip split: if_splits)

lemma is_Exception_iff: "is_Exception e \<longleftrightarrow> e \<noteq> KeyboardInterrupt"
  by (cases e) simp_all

lemma dict_get_update_other:
  "k \<noteq> k' \<Longrightarrow> dict_get (AList.update k v d) k' dflt = dict_get d k' dflt"
  by (simp add: dict_get_def update_conv')

lemma join_strings:
  "\<exists>t. (if py_truthy (PList (map PStr ks)) then join_value '', '' (PList (map PStr ks))
         else Inr ''N/A'') = Inr t"
  by (simp add: list_all_iff)

lemma emit_then:
  "then_do (emit ev) f fs = (case f () fs of (tr, fs', r) \<Rightarrow> (ev # tr, fs', r))"
  by (simp add: then_do_def emit_def)

text \<open>
  Programs built from inert parts are inert.
\<close>

lemma inert_ret: "inert (ret x)"
  by (simp add: inert_def ret_def)

lemma inert_raise: "inert (raise e)"
  by (simp add: inert_def raise_def)

lemma inert_emit: "inert (emit ev)"
  by (simp add: inert_def emit_def)

lemma inert_then_do:
  assumes "inert m" and "\<And>x. inert (f x)"
  shows "inert (then_do m f)"
  unfolding inert_def
proof (intro allI)
  fix fs
  obtain tr fs' r where m: "m fs = (tr, fs', r)" by (cases "m fs") auto
  with assms(1) have fs': "fs' = fs" and r: "\<forall>n. r \<noteq> Inl (SysExit n)"
    by (auto simp: inert_def dest: spec [of _ fs])
  show "fst (snd (then_do m f fs)) = fs \<and> (\<forall>n. snd (snd (then_do m f fs)) \<noteq> Inl (SysExit n))"
  proof (cases r)
    case (Inl a)
    with m fs' r show ?thesis by (simp add: then_do_def)
  next
    case (Inr x)
    obtain tr2 fs2 r2 where f: "f x fs = (tr2, fs2, r2)" by (cases "f x fs") auto
    with assms(2) [of x] have "fs2 = fs" "\<forall>n. r2 \<noteq> Inl (SysExit n)"
      by (auto simp: inert_def dest: spec [of _ fs])
    with m fs' Inr f show ?thesis by (simp add: then_do_def)
  qed
qed

lemma inert_try_except:
  assumes "inert m" and "\<And>e. inert (h e)"
  shows "inert (try_except m handles h)"
  unfolding inert_def
proof (intro allI)
  fix fs
  obtain tr fs' r where m: "m fs = (tr, fs', r)" by (cases "m fs") auto
  with assms(1) have fs': "fs' = fs" and r: "\<forall>n. r \<noteq> Inl (SysExit n)"
    by (auto simp: inert_def dest: spec [of _ fs])
  show "fst (snd (try_except m handles h fs)) = fs
          \<and> (\<forall>n. snd (snd (try_except m handles h fs)) \<noteq> Inl (SysExit n))"
  proof (cases r)
    case (Inr x)
    with m fs' show ?thesis by (simp add: try_except_def)
  next
    case (Inl a)
    show ?thesis
    proof (cases a)
      case (SysExit n)
      with Inl r show ?thesis by simp
    next
      case (Raised e)
      obtain tr2 fs2 r2 where h: "h e fs = (tr2, fs2, r2)" by (cases "h e fs") auto
      with assms(2) [of e] have "fs2 = fs" "\<forall>n. r2 \<noteq> Inl (SysExit n)"
        by (auto simp: inert_def dest: spec [of _ fs])
      with m fs' Inl Raised h show ?thesis by (simp add: try_except_def)
    qed
  qed
qed

lemmas inert_intros =
  inert_ret inert_raise inert_emit inert_then_do inert_try_except

lemma inertD:
  assumes "inert m"
  shows "\<exists>tr r. m fs = (tr, fs, r) \<and> (\<forall>n. r \<noteq> Inl (SysExit n))"
proof -
  obtain tr fs' r where "m fs = (tr, fs', r)" by (cases "m fs") auto
  with assms show ?thesis by (auto simp: inert_def dest: spec [of _ fs])
qed

text \<open>
  What the example worlds hold.
\<close>

lemma env_quiet_world [simp]: "env quiet_world = Map.empty"
  by (simp add: quiet_world_def)

lemma env_examples:
  "env watch_world = map_of [(''WATCH_URL'', ''https://example.org''), (''WATCH_KEYWORDS'', ''Sale'')]"
  "env forced_world = map_of [(''WATCH_URL'', ''https://example.org''),
      (''WATCH_KEYWORDS'', ''Sale''), (''FORCE_NOTIFY'', ''TRUE'')]"
  by (simp_all add: watch_world_def forced_world_def)

lemma config_ok_examples:
  "config_ok watch_world" "config_ok offline_world" "config_ok empty_port_world"
  "config_ok forced_world" "config_ok empty_port_forced_world" "config_ok interrupted_world"
  "\<not> config_ok quiet_world"
  by (simp_all add: config_ok_def watch_url_def watch_selector_def watch_keywords_def
        getenv_def getenv_default_def py_or_def parse_Sale watch_world_def offline_world_def
        empty_port_world_def forced_world_def empty_port_forced_world_def interrupted_world_def)

lemma force_notify_examples:
  "\<not> force_notify watch_world" "\<not> force_notify offline_world"
  "\<not> force_notify empty_port_world" "\<not> force_notify interrupted_world"
  "force_notify forced_world" "force_notify empty_port_forced_world"
  by (simp_all add: force_notify_def getenv_default_def lower_Nil lower_true watch_world_def
        offline_world_def empty_port_world_def forced_world_def empty_port_forced_world_def
        interrupted_world_def)

lemma watch_url_examples:
  "watch_url watch_world = Some ''https://example.org''"
  "watch_url offline_world = Some ''https://example.org''"
  "watch_url empty_port_world = Some ''https://example.org''"
  "watch_url interrupted_world = Some ''https://example.org''"
  "watch_url forced_world = Some ''https://example.org''"
  "watch_url empty_port_forced_world = Some ''https://example.org''"
  by (simp_all add: watch_url_def getenv_def watch_world_def offline_world_def
        empty_port_world_def forced_world_def empty_port_forced_world_def interrupted_world_def)

lemma http_get_examples:
  "http_get watch_world url k = Inr ''<p>huge sale today</p>''"
  "http_get empty_port_world url k = Inr ''<p>huge sale today</p>''"
  "http_get interrupted_world url k = Inl KeyboardInterrupt"
  by (simp_all add: watch_world_def empty_port_world_def interrupted_world_def quiet_world_def)

lemma no_channels:
  "env watch_world ''SMTP_PORT'' = None" "\<not> email_configured watch_world"
  "\<not> list_all truthy [getenv watch_world ''TWILIO_ACCOUNT_SID'',
      getenv watch_world ''TWILIO_AUTH_TOKEN'', getenv watch_world ''WHATSAPP_FROM'',
      getenv watch_world ''WHATSAPP_TO'']"
  "env forced_world ''SMTP_PORT'' = None" "\<not> email_configured forced_world"
  "\<not> list_all truthy [getenv forced_world ''TWILIO_ACCOUNT_SID'',
      getenv forced_world ''TWILIO_AUTH_TOKEN'', getenv forced_world ''WHATSAPP_FROM'',
      getenv forced_world ''WHATSAPP_TO'']"
  by (simp_all add: env_examples email_configured_def getenv_def)

lemma empty_port_examples:
  "py_int (getenv_default empty_port_world ''SMTP_PORT'' ''587'') = None"
  "py_int (getenv_default empty_port_forced_world ''SMTP_PORT'' ''587'') = None"
  by (simp_all add: empty_port_world_def empty_port_forced_world_def getenv_default_def
        py_int_empty)

lemma empty_port_settings:
  "watch_selector empty_port_world = None"
  "watch_keywords empty_port_world = Some [''Sale'']"
  "soup_page_text empty_port_world html = ''huge sale today''"
  "sha256 empty_port_world s = ''sha256:'' @ s"
  "getenv empty_port_world ''SMTP_PORT'' = Some []"
  "list_all truthy
     [getenv empty_port_world ''TWILIO_ACCOUNT_SID'', getenv empty_port_world ''TWILIO_AUTH_TOKEN'',
      getenv empty_port_world ''WHATSAPP_FROM'', getenv empty_port_world ''WHATSAPP_TO'']"
  by (simp_all add: empty_port_world_def quiet_world_def watch_selector_def watch_keywords_def
        getenv_def getenv_default_def py_or_def parse_Sale sha256_def)

lemma sha_watch_world: "sha256 watch_world s = ''sha256:'' @ s"
  by (simp add: sha256_def watch_world_def quiet_world_def)

lemma sale_signal:
  assumes "watch_selector w = None" and "watch_keywords w = Some [''Sale'']"
    and "soup_page_text w html = ''huge sale today''"
  shows "extract_signal w html (watch_selector w) (watch_keywords w)
     = (''huge sale today'',
        fst (snd (keyword_signal w html (Some [''Sale'']))),
        [(''method'', PStr ''keywords''), (''total_keywords'', PInt 1),
         (''matched_keywords'', PList [PStr ''Sale'']), (''page_length'', PInt 15)])"
  unfolding assms(1,2)
  by (simp add: extract_signal_def keyword_signal_def Let_def assms(3) strip_Sale lower_Sale
        lower_text)

lemma watch_world_signal:
  "extract_signal watch_world html (watch_selector watch_world) (watch_keywords watch_world)
     = (''huge sale today'',
        fst (snd (keyword_signal watch_world html (Some [''Sale'']))),
        [(''method'', PStr ''keywords''), (''total_keywords'', PInt 1),
         (''matched_keywords'', PList [PStr ''Sale'']), (''page_length'', PInt 15)])"
proof -
  have s: "watch_selector watch_world = None"
    by (simp add: watch_selector_def env_examples getenv_def py_or_def)
  have k: "watch_keywords watch_world = Some [''Sale'']"
    by (simp add: watch_keywords_def env_examples getenv_default_def parse_Sale)
  have t: "soup_page_text watch_world html = ''huge sale today''"
    by (simp add: watch_world_def quiet_world_def)
  show ?thesis
    unfolding s k
    by (simp add: extract_signal_def keyword_signal_def Let_def t strip_Sale lower_Sale lower_text)
qed

subsection \<open>The selector strategy\<close>

text \<open>
  Claim C10. When a selector is configured, the \<open>found\<close> entry of the metadata is true
  exactly when the signal is not empty, the signal being the text of the first element the
  selector finds. An element with empty text and no element at all give the same result:
  the empty signal, the summary "not found", \<open>found\<close> false and length 0. The function
  returns a value in both cases.
\<close>

theorem selector_found_iff_text:
  assumes "selector = Some sel" and "sel \<noteq> []"
  shows "(case extract_signal w html selector keywords of
            (signal, summary, metadata) \<Rightarrow>
              map_of metadata ''found'' = Some (PBool (signal \<noteq> []))
              \<and> signal = (case soup_select_text w html sel of Some t \<Rightarrow> t | None \<Rightarrow> []))
       \<and> (soup_select_text w html sel = None \<or> soup_select_text w html sel = Some [] \<longrightarrow>
            extract_signal w html selector keywords =
              ([], ''Selector '' @ [CHR 0x27] @ sel @ [CHR 0x27] @ '' not found'',
               [(''method'', PStr ''selector''), (''selector'', PStr sel),
                (''found'', PBool False), (''length'', PInt 0)]))"
  using assms by (auto simp: extract_signal_def selector_signal_def Let_def)

theorem selector_found_iff_text_witness:
  "extract_signal quiet_world ''<p></p>'' (Some ''p'') None =
     ([], ''Selector '' @ [CHR 0x27] @ ''p'' @ [CHR 0x27] @ '' not found'',
      [(''method'', PStr ''selector''), (''selector'', PStr ''p''),
       (''found'', PBool False), (''length'', PInt 0)])
   \<and> extract_signal (quiet_world\<lparr>soup_select_text := (\<lambda>html sel. Some [])\<rparr>)
        ''<p></p>'' (Some ''p'') None =
     ([], ''Selector '' @ [CHR 0x27] @ ''p'' @ [CHR 0x27] @ '' not found'',
      [(''method'', PStr ''selector''), (''selector'', PStr ''p''),
       (''found'', PBool False), (''length'', PInt 0)])
   \<and> map_of (snd (snd (extract_signal
          (quiet_world\<lparr>soup_select_text := (\<lambda>html sel. Some ''In stock'')\<rparr>)
          ''<p>In stock</p>'' (Some ''p'') None))) ''found'' = Some (PBool True)"
proof -
  have a: "soup_select_text quiet_world ''<p></p>'' ''p'' = None"
    by (simp add: quiet_world_def)
  have b: "soup_select_text (quiet_world\<lparr>soup_select_text := (\<lambda>html sel. Some [])\<rparr>)
             ''<p></p>'' ''p'' = Some []"
    by simp
  have c: "soup_select_text (quiet_world\<lparr>soup_select_text := (\<lambda>html sel. Some ''In stock'')\<rparr>)
             ''<p>In stock</p>'' ''p'' = Some ''In stock''"
    by simp
  from selector_found_iff_text [of "Some ''p''" "''p''" quiet_world "''<p></p>''" None] a
  have 1: "extract_signal quiet_world ''<p></p>'' (Some ''p'') None =
     ([], ''Selector '' @ [CHR 0x27] @ ''p'' @ [CHR 0x27] @ '' not found'',
      [(''method'', PStr ''selector''), (''selector'', PStr ''p''),
       (''found'', PBool False), (''length'', PInt 0)])"
    by simp
  from selector_found_iff_text [of "Some ''p''" "''p''"
      "quiet_world\<lparr>soup_select_text := (\<lambda>html sel. Some [])\<rparr>" "''<p></p>''" None] b
  have 2: "extract_signal (quiet_world\<lparr>soup_select_text := (\<lambda>html sel. Some [])\<rparr>)
        ''<p></p>'' (Some ''p'') None =
     ([], ''Selector '' @ [CHR 0x27] @ ''p'' @ [CHR 0x27] @ '' not found'',
      [(''method'', PStr ''selector''), (''selector'', PStr ''p''),
       (''found'', PBool False), (''length'', PInt 0)])"
    by simp
  from selector_found_iff_text [of "Some ''p''" "''p''"
      "quiet_world\<lparr>soup_select_text := (\<lambda>html sel. Some ''In stock'')\<rparr>"
      "''<p>In stock</p>''" None] c
  have 3: "map_of (snd (snd (extract_signal
          (quiet_world\<lparr>soup_select_text := (\<lambda>html sel. Some ''In stock'')\<rparr>)
          ''<p>In stock</p>'' (Some ''p'') None))) ''found'' = Some (PBool True)"
    by (simp split: prod.splits)
  from 1 2 3 show ?thesis by blast
qed

subsection \<open>The keyword strategy\<close>

text \<open>
  Claim C7, as the code has it. With no selector configured the signal is the whole page
  text. A keyword whose stripped form is not empty is listed under \<open>matched_keywords\<close>
  (stripped) exactly when its lowered stripped form occurs in the lowered page text. A
  keyword that is empty once stripped is never listed: line 116 asks for a non-empty
  \<open>kw_clean\<close> first.
\<close>

theorem keyword_strategy:
  assumes "\<not> truthy selector"
  shows "case extract_signal w html selector keywords of
           (signal, summary, metadata) \<Rightarrow>
             signal = soup_page_text w html
             \<and> (\<forall>k \<in> set (keywords_list keywords). strip k \<noteq> [] \<longrightarrow>
                   (strip k \<in> set (reported_matches metadata)
                      \<longleftrightarrow> py_in (lower (strip k)) (lower (soup_page_text w html))))
             \<and> [] \<notin> set (reported_matches metadata)"
proof -
  have sel: "extract_signal w html selector keywords = keyword_signal w html keywords"
    using assms by (cases selector) (simp_all add: extract_signal_def)
  have rep: "reported_matches (snd (snd (keyword_signal w html keywords)))
               = match_keywords (lower (soup_page_text w html)) (keywords_list keywords)"
    by (simp add: keyword_signal_def reported_matches_def Let_def)
  show ?thesis
    unfolding sel using rep
    by (auto simp: keyword_signal_def Let_def set_match_keywords split: prod.splits)
qed

text \<open>
  The keyword \<^verbatim>\<open>"Sale"\<close> is matched on a page that reads "huge sale today".
\<close>

theorem keyword_strategy_witness:
  "fst (extract_signal quiet_world ''<p>huge sale today</p>'' None (Some [''Sale'', '' '']))
     = ''huge sale today''
   \<and> ''Sale'' \<in> set (reported_matches (snd (snd
        (extract_signal quiet_world ''<p>huge sale today</p>'' None (Some [''Sale'', '' ''])))))"
  using keyword_strategy [of None quiet_world "''<p>huge sale today</p>''" "Some [''Sale'', '' '']"]
    strip_Sale Sale_in_text
  by (simp add: quiet_world_def strip_blank split: prod.splits)

text \<open>
  The claim without the restriction fails for the keyword \<^verbatim>\<open>" "\<close>: stripped it is the
  empty string, which occurs in every text, and it is not listed.
\<close>

theorem keyword_claim_counterexample:
  "py_in (lower (strip '' ''))
     (lower (soup_page_text quiet_world ''<p>huge sale today</p>''))
   \<and> strip '' '' \<notin> set (reported_matches (snd (snd
        (extract_signal quiet_world ''<p>huge sale today</p>'' None (Some [''Sale'', '' ''])))))"
  by (simp add: strip_blank strip_Sale quiet_world_def extract_signal_def keyword_signal_def
        reported_matches_def Let_def lower_Sale lower_text lower_Nil py_in_Nil)

text \<open>
  The keywords that \<^verbatim>\<open>main\<close> passes on are those of line 256: stripped and not empty.
  For them a keyword is listed exactly when its lowered form occurs in the lowered page
  text.
\<close>

theorem configured_keywords_match:
  assumes "\<not> truthy (watch_selector w)" and "watch_keywords w = Some ks"
  shows "case extract_signal w html (watch_selector w) (watch_keywords w) of
           (signal, summary, metadata) \<Rightarrow>
             \<forall>k \<in> set ks. k \<in> set (reported_matches metadata)
                             \<longleftrightarrow> py_in (lower k) (lower (soup_page_text w html))"
proof -
  have sel: "extract_signal w html (watch_selector w) (watch_keywords w)
               = keyword_signal w html (Some ks)"
    using assms by (cases "watch_selector w") (simp_all add: extract_signal_def)
  have clean: "strip k = k \<and> k \<noteq> []" if "k \<in> set ks" for k
    using parse_keywords_clean [of _ ks k] assms(2) that by (simp add: watch_keywords_def)
  have m: "k \<in> set (match_keywords t ks) \<longleftrightarrow> py_in (lower k) t" if k: "k \<in> set ks" for k t
  proof
    assume "k \<in> set (match_keywords t ks)"
    then obtain kw where "k = strip kw" "kw \<in> set ks" "py_in (lower (strip kw)) t"
      by (auto simp: set_match_keywords)
    then show "py_in (lower k) t" by simp
  next
    assume "py_in (lower k) t"
    with k clean [OF k]
    have "k = strip k \<and> k \<in> set ks \<and> strip k \<noteq> [] \<and> py_in (lower (strip k)) t"
      by simp
    then show "k \<in> set (match_keywords t ks)"
      unfolding set_match_keywords by blast
  qed
  show ?thesis
    unfolding sel
    by (simp add: keyword_signal_def reported_matches_def Let_def m)
qed

theorem configured_keywords_match_witness:
  "watch_keywords watch_world = Some [''Sale'']
   \<and> ''Sale'' \<in> set (reported_matches (snd (snd
        (extract_signal watch_world ''<p>huge sale today</p>''
           (watch_selector watch_world) (watch_keywords watch_world)))))"
proof -
  have s: "\<not> truthy (watch_selector watch_world)"
    by (simp add: watch_selector_def env_examples getenv_def py_or_def)
  have k: "watch_keywords watch_world = Some [''Sale'']"
    by (simp add: watch_keywords_def env_examples getenv_default_def parse_Sale)
  have t: "soup_page_text watch_world ''<p>huge sale today</p>'' = ''huge sale today''"
    by (simp add: watch_world_def quiet_world_def)
  from configured_keywords_match [OF s k, of "''<p>huge sale today</p>''"] Sale_in_text t k
  show ?thesis by (simp split: prod.splits)
qed

text \<open>Whatever the strategy, the metadata lists strings or has no list.\<close>

lemma extracted_matches:
  "\<exists>ks. dict_get (snd (snd (extract_signal w html selector keywords)))
           ''matched_keywords'' (PList []) = PList (map PStr ks)"
proof (cases "truthy selector")
  case True
  then obtain sel where "selector = Some sel" "sel \<noteq> []" by (cases selector) auto
  then have "dict_get (snd (snd (extract_signal w html selector keywords)))
           ''matched_keywords'' (PList []) = PList (map PStr [])"
    by (simp add: extract_signal_def selector_signal_def dict_get_def Let_def)
  then show ?thesis by blast
next
  case False
  then have "extract_signal w html selector keywords = keyword_signal w html keywords"
    by (cases selector) (simp_all add: extract_signal_def)
  then show ?thesis
    by (auto simp: keyword_signal_def dict_get_def Let_def)
qed

subsection \<open>The fetcher\<close>

lemma attempts_through_step:
  "a < k \<Longrightarrow> attempts_through url a k = HttpGet url a # Sleep (2 ^ a) # attempts_through url (Suc a) k"
  by (simp add: attempts_through_def upt_conv_Cons)

lemma attempts_through_same: "attempts_through url k k = [HttpGet url k]"
  by (simp add: attempts_through_def)

lemma set_attempts_through:
  "ev \<in> set (attempts_through url a k) \<Longrightarrow> (\<exists>j. ev = HttpGet url j) \<or> (\<exists>n. ev = Sleep n)"
  by (auto simp: attempts_through_def)

lemma fetch_from_success:
  assumes "a \<le> k" and "k < retries"
    and "\<forall>j. a \<le> j \<and> j < k \<longrightarrow> request_failed (http_get w url j)"
    and "http_get w url k = Inr text"
  shows "fetch_from w url retries a fs = (attempts_through url a k, fs, Inr text)"
  using assms
proof (induction "k - a" arbitrary: a)
  case 0
  then have "a = k" by simp
  with 0 show ?case
    by (subst fetch_from.simps) (simp add: prog_defs attempts_through_same)
next
  case (Suc n)
  then have lt: "a < k" by simp
  with Suc.prems have "request_failed (http_get w url a)" by simp
  then obtain e where e: "http_get w url a = Inl e" "is_RequestException e"
    by (cases "http_get w url a") auto
  have IH: "fetch_from w url retries (Suc a) fs = (attempts_through url (Suc a) k, fs, Inr text)"
    using Suc.hyps(1) [of "Suc a"] Suc.hyps(2) Suc.prems lt by simp
  from lt Suc.prems(2) have "a < retries" "a \<noteq> retries - 1" by simp_all
  then show ?case
    using e IH lt
    by (subst fetch_from.simps) (simp add: prog_defs attempts_through_step)
qed

lemma fetch_from_exhausted:
  assumes "a < retries"
    and "\<forall>j. a \<le> j \<and> j < retries \<longrightarrow> request_failed (http_get w url j)"
  shows "\<exists>e. http_get w url (retries - 1) = Inl e \<and> is_RequestException e
           \<and> fetch_from w url retries a fs
               = (attempts_through url a (retries - 1), fs, Inl (Raised e))"
  using assms
proof (induction "retries - 1 - a" arbitrary: a)
  case 0
  then have a: "a = retries - 1" by simp
  from 0 have "request_failed (http_get w url a)" by simp
  then obtain e where e: "http_get w url a = Inl e" "is_RequestException e"
    by (cases "http_get w url a") auto
  with 0 a show ?case
    by (subst fetch_from.simps) (simp add: prog_defs attempts_through_same)
next
  case (Suc n)
  then have lt: "a < retries - 1" by simp
  from Suc.prems have "request_failed (http_get w url a)" by simp
  then obtain e where e: "http_get w url a = Inl e" "is_RequestException e"
    by (cases "http_get w url a") auto
  have "\<exists>e. http_get w url (retries - 1) = Inl e \<and> is_RequestException e
           \<and> fetch_from w url retries (Suc a) fs
               = (attempts_through url (Suc a) (retries - 1), fs, Inl (Raised e))"
    using Suc.hyps(1) [of "Suc a"] Suc.hyps(2) Suc.prems lt by simp
  then obtain e' where e': "http_get w url (retries - 1) = Inl e'" "is_RequestException e'"
    "fetch_from w url retries (Suc a) fs
               = (attempts_through url (Suc a) (retries - 1), fs, Inl (Raised e'))"
    by blast
  from lt have "a < retries" "a \<noteq> retries - 1" by simp_all
  then show ?case
    using e e' lt
    by (subst fetch_from.simps) (simp add: prog_defs attempts_through_step)
qed

lemma fetch_from_attempts:
  "length (filter is_HttpGet (fst (fetch_from w url retries a fs))) \<le> retries - a"
proof (induction w url retries a arbitrary: fs rule: fetch_from.induct)
  case (1 w url retries attempt)
  show ?case
  proof (cases "attempt < retries")
    case False
    then show ?thesis by (subst fetch_from.simps) (simp add: prog_defs)
  next
    case True
    show ?thesis
    proof (cases "http_get w url attempt")
      case (Inr page)
      with True show ?thesis by (subst fetch_from.simps) (simp add: prog_defs)
    next
      case (Inl e)
      show ?thesis
      proof (cases "is_RequestException e \<and> attempt \<noteq> retries - 1")
        case False
        with True Inl show ?thesis
          by (subst fetch_from.simps) (auto simp add: prog_defs)
      next
        case yes: True
        with "1.IH" [of e fs] True Inl
        have "length (filter is_HttpGet (fst (fetch_from w url retries (attempt + 1) fs)))
                \<le> retries - (attempt + 1)"
          by simp
        with True Inl yes show ?thesis
          by (subst fetch_from.simps) (auto simp add: prog_defs split: prod.splits)
      qed
    qed
  qed
qed

lemma fetch_from_stops:
  assumes "a < retries" and "http_get w url a = Inl e" and "\<not> is_RequestException e"
  shows "fetch_from w url retries a fs = ([HttpGet url a], fs, Inl (Raised e))"
  using assms by (subst fetch_from.simps) (simp add: prog_defs)

lemma fetch_first_try:
  assumes "0 < retries" and "http_get w url 0 = Inr body"
  shows "fetch w url retries fs = ([HttpGet url 0], fs, Inr body)"
  using fetch_from_success [of 0 0 retries w url body fs] assms
  by (simp add: fetch_def attempts_through_same)

lemma inert_fetch_from: "inert (fetch_from w url retries a)"
proof (induction w url retries a rule: fetch_from.induct)
  case (1 w url retries attempt)
  show ?case
  proof (cases "attempt < retries")
    case False
    then show ?thesis by (subst fetch_from.simps) (simp add: inert_intros)
  next
    case True
    show ?thesis
    proof (cases "http_get w url attempt")
      case (Inr page)
      with True show ?thesis
        by (subst fetch_from.simps) (auto intro!: inert_intros)
    next
      case (Inl e)
      with True "1.IH" show ?thesis
        by (subst fetch_from.simps) (auto intro!: inert_intros)
    qed
  qed
qed

lemma inert_fetch: "inert (fetch w url retries)"
  by (simp add: fetch_def inert_fetch_from)

text \<open>
  Claim C5. A fetch with \<open>retries\<close> attempts allowed (\<^verbatim>\<open>main\<close> allows 3) makes at most
  that many requests. If the attempts before attempt \<open>k\<close> end in a request exception and
  attempt \<open>k\<close> succeeds, the fetch returns the body of attempt \<open>k\<close> and has made the
  attempts 0 to \<open>k\<close> and no more, pausing \<open>2 ^ j\<close> seconds after the failed attempt \<open>j\<close>.
  If every attempt ends in a request exception, the exception of the last attempt is raised
  to the caller, with no pause after it. For three attempts the pauses are 1 and 2 seconds.
\<close>

theorem fetch_retries:
  "length (filter is_HttpGet (fst (fetch w url retries fs))) \<le> retries
   \<and> (k < retries \<and> (\<forall>j<k. request_failed (http_get w url j)) \<and> http_get w url k = Inr body
        \<longrightarrow> fetch w url retries fs = (attempts_through url 0 k, fs, Inr body))
   \<and> (0 < retries \<and> (\<forall>j<retries. request_failed (http_get w url j))
        \<longrightarrow> (\<exists>e. http_get w url (retries - 1) = Inl e
                 \<and> fetch w url retries fs
                     = (attempts_through url 0 (retries - 1), fs, Inl (Raised e))))
   \<and> attempts_through url 0 2
       = [HttpGet url 0, Sleep 1, HttpGet url 1, Sleep 2, HttpGet url 2]"
proof (intro conjI impI)
  show "length (filter is_HttpGet (fst (fetch w url retries fs))) \<le> retries"
    using fetch_from_attempts [of w url retries 0 fs] by (simp add: fetch_def)
next
  assume "k < retries \<and> (\<forall>j<k. request_failed (http_get w url j)) \<and> http_get w url k = Inr body"
  then show "fetch w url retries fs = (attempts_through url 0 k, fs, Inr body)"
    using fetch_from_success [of 0 k retries w url body fs] by (simp add: fetch_def)
next
  assume "0 < retries \<and> (\<forall>j<retries. request_failed (http_get w url j))"
  then show "\<exists>e. http_get w url (retries - 1) = Inl e
                 \<and> fetch w url retries fs
                     = (attempts_through url 0 (retries - 1), fs, Inl (Raised e))"
    using fetch_from_exhausted [of 0 retries w url fs] by (auto simp: fetch_def)
next
  show "attempts_through url 0 2
       = [HttpGet url 0, Sleep 1, HttpGet url 1, Sleep 2, HttpGet url 2]"
    by (simp add: attempts_through_def upt_conv_Cons)
qed

theorem fetch_retries_witness:
  "fetch flaky_world ''https://example.org'' 3 None =
     ([HttpGet ''https://example.org'' 0, Sleep 1, HttpGet ''https://example.org'' 1, Sleep 2,
       HttpGet ''https://example.org'' 2], None, Inr ''<p>ok</p>'')
   \<and> fetch offline_world ''https://example.org'' 3 None =
     ([HttpGet ''https://example.org'' 0, Sleep 1, HttpGet ''https://example.org'' 1, Sleep 2,
       HttpGet ''https://example.org'' 2], None, Inl (Raised RequestException))"
proof -
  have f: "http_get flaky_world ''https://example.org'' 2 = Inr ''<p>ok</p>''"
    "\<forall>j<2. request_failed (http_get flaky_world ''https://example.org'' j)"
    by (simp_all add: flaky_world_def)
  have t: "attempts_through ''https://example.org'' 0 2 =
     [HttpGet ''https://example.org'' 0, Sleep 1, HttpGet ''https://example.org'' 1, Sleep 2,
       HttpGet ''https://example.org'' 2]"
    by (simp add: attempts_through_def upt_conv_Cons)
  have 1: "fetch flaky_world ''https://example.org'' 3 None =
     (attempts_through ''https://example.org'' 0 2, None, Inr ''<p>ok</p>'')"
    using fetch_retries [of flaky_world "''https://example.org''" 3 None 2 "''<p>ok</p>''"] f
    by simp
  have o: "\<forall>j<3. request_failed (http_get offline_world ''https://example.org'' j)"
    "http_get offline_world ''https://example.org'' 2 = Inl RequestException"
    by (simp_all add: offline_world_def)
  have 2: "fetch offline_world ''https://example.org'' 3 None =
     (attempts_through ''https://example.org'' 0 2, None, Inl (Raised RequestException))"
    using fetch_retries [of offline_world "''https://example.org''" 3 None 0 "[]"] o
    by auto
  from 1 2 t show ?thesis by simp
qed

subsection \<open>The state store\<close>

lemma load_state_result:
  "load_state fs =
     (case fs of
        None \<Rightarrow> ([], fs, Inr default_state)
      | Some Unreadable \<Rightarrow> ([Log StateLoadWarning], fs, Inr default_state)
      | Some Undecodable \<Rightarrow> ([], fs, Inl (Raised UnicodeDecodeError))
      | Some Malformed \<Rightarrow> ([Log StateLoadWarning], fs, Inr default_state)
      | Some (Doc v) \<Rightarrow> ([], fs, Inr v))"
  by (simp add: load_state_def path_exists_def open_and_load_def prog_defs
        split: option.split file_contents.split)

lemma inert_load_state: "inert load_state"
  by (simp add: inert_def load_state_result split: option.split file_contents.split)

lemma load_old_state:
  "load_state (Some old_state) =
     ([], Some old_state,
      Inr (PDict [(''last_hash'', PStr ''sha256:old''), (''last_match'', PStr ''before''),
                  (''last_checked'', PStr ''2024-04-30T12:00:00+00:00'')]))"
  by (simp add: load_state_result old_state_def)

subsection \<open>The channels\<close>

lemma sender_never_decides:
  "list_all truthy
     [getenv w ''SMTP_HOST'', getenv w ''SMTP_USER'', getenv w ''SMTP_PASS'',
      getenv w ''EMAIL_TO'', py_or (getenv w ''EMAIL_FROM'') (getenv w ''SMTP_USER'')]
   = email_configured w"
  by (auto simp: email_configured_def py_or_def)

text \<open>
  Claim C3, as the code has it. Once the port setting has been read as a number, a
  submission is attempted exactly when host, user, password and recipient are all set and
  not empty; the sender is \<^verbatim>\<open>EMAIL_FROM\<close> or else the user, so the check of line 154 on
  the five values comes to the four settings and the sender setting alone never decides. If one of the four is missing the function prints that email is not
  configured and returns false without a submission. An attempted submission returns true
  if it succeeds and false if it raises an \<^verbatim>\<open>Exception\<close>.
\<close>

theorem send_email_when:
  assumes "py_int (getenv_default w ''SMTP_PORT'' ''587'') = Some port"
  shows "list_all truthy
           [getenv w ''SMTP_HOST'', getenv w ''SMTP_USER'', getenv w ''SMTP_PASS'',
            getenv w ''EMAIL_TO'', py_or (getenv w ''EMAIL_FROM'') (getenv w ''SMTP_USER'')]
         = email_configured w
       \<and> send_email w subject body fs =
           (if email_configured w then
              (case smtp_session w (email_of w port subject body) of
                 None \<Rightarrow> ([SmtpSend (email_of w port subject body), Log EmailSent], fs, Inr True)
               | Some e \<Rightarrow>
                   if is_Exception e
                   then ([SmtpSend (email_of w port subject body), Log EmailFailed], fs, Inr False)
                   else ([SmtpSend (email_of w port subject body)], fs, Inl (Raised e)))
            else ([Log EmailNotConfigured], fs, Inr False))"
  using assms
  by (auto simp: send_email_def email_configured_def email_of_def smtp_submit_def prog_defs
        py_or_def Let_def split: option.splits)

theorem send_email_when_witness:
  "send_email mail_world ''subject'' ''body'' None =
     ([SmtpSend \<lparr>smtp_host = ''smtp.example.org'', smtp_port = 587, smtp_user = ''watcher'',
                 smtp_pass = ''secret'', mail_from = ''watcher'', mail_to = ''ops@example.org'',
                 mail_subject = ''subject'', mail_body = ''body''\<rparr>,
       Log EmailSent], None, Inr True)
   \<and> send_email quiet_world ''subject'' ''body'' None = ([Log EmailNotConfigured], None, Inr False)"
proof -
  have p1: "py_int (getenv_default mail_world ''SMTP_PORT'' ''587'') = Some 587"
    by (simp add: mail_world_def getenv_default_def py_int_587)
  have p2: "py_int (getenv_default quiet_world ''SMTP_PORT'' ''587'') = Some 587"
    by (simp add: getenv_default_def py_int_587)
  have c1: "email_configured mail_world"
    by (simp add: email_configured_def mail_world_def getenv_def)
  have c2: "\<not> email_configured quiet_world"
    by (simp add: email_configured_def getenv_def)
  have m: "email_of mail_world 587 ''subject'' ''body'' =
      \<lparr>smtp_host = ''smtp.example.org'', smtp_port = 587, smtp_user = ''watcher'',
       smtp_pass = ''secret'', mail_from = ''watcher'', mail_to = ''ops@example.org'',
       mail_subject = ''subject'', mail_body = ''body''\<rparr>"
    by (simp add: email_of_def mail_world_def getenv_def py_or_def)
  have s: "smtp_session mail_world = (\<lambda>_. None)"
    by (simp add: mail_world_def quiet_world_def)
  from send_email_when [OF p1, of "''subject''" "''body''" None] c1 m s
  have 1: "send_email mail_world ''subject'' ''body'' None =
     ([SmtpSend \<lparr>smtp_host = ''smtp.example.org'', smtp_port = 587, smtp_user = ''watcher'',
                 smtp_pass = ''secret'', mail_from = ''watcher'', mail_to = ''ops@example.org'',
                 mail_subject = ''subject'', mail_body = ''body''\<rparr>,
       Log EmailSent], None, Inr True)"
    by simp
  from send_email_when [OF p2, of "''subject''" "''body''" None] c2
  have 2: "send_email quiet_world ''subject'' ''body'' None =
             ([Log EmailNotConfigured], None, Inr False)"
    by simp
  from 1 2 show ?thesis by blast
qed

text \<open>
  With \<^verbatim>\<open>EMAIL_FROM\<close> unset and the other four settings present, the mail is sent, from
  the SMTP user.
\<close>

theorem sender_unset_counterexample:
  "getenv mail_world ''EMAIL_FROM'' = None
   \<and> send_email mail_world ''subject'' ''body'' None =
     ([SmtpSend \<lparr>smtp_host = ''smtp.example.org'', smtp_port = 587, smtp_user = ''watcher'',
                 smtp_pass = ''secret'', mail_from = ''watcher'', mail_to = ''ops@example.org'',
                 mail_subject = ''subject'', mail_body = ''body''\<rparr>,
       Log EmailSent], None, Inr True)"
  by (simp add: mail_world_def quiet_world_def getenv_def getenv_default_def py_int_587
        send_email_def py_or_def smtp_submit_def prog_defs Let_def)

text \<open>
  The messaging channel posts exactly when account id, token, sender and recipient are all
  set and not empty; a post that raises an \<^verbatim>\<open>Exception\<close> gives false.
\<close>

theorem send_whatsapp_when:
  "send_whatsapp w subject body fs =
     (if whatsapp_configured w then
        (case twilio_post w (whatsapp_of w subject body) of
           None \<Rightarrow> ([TwilioPost (whatsapp_of w subject body), Log WhatsAppSent], fs, Inr True)
         | Some e \<Rightarrow>
             if is_Exception e
             then ([TwilioPost (whatsapp_of w subject body), Log WhatsAppFailed], fs, Inr False)
             else ([TwilioPost (whatsapp_of w subject body)], fs, Inl (Raised e)))
      else ([Log WhatsAppNotConfigured], fs, Inr False))"
  by (auto simp: send_whatsapp_def whatsapp_configured_def whatsapp_of_def twilio_submit_def
        prog_defs Let_def split: option.splits)

lemma inert_smtp_submit: "inert (smtp_submit w msg)"
  unfolding smtp_submit_def
  by (intro inert_intros) (simp add: inert_intros split: option.split)

lemma inert_twilio_submit: "inert (twilio_submit w msg)"
  unfolding twilio_submit_def
  by (intro inert_intros) (simp add: inert_intros split: option.split)

lemma inert_send_email: "inert (send_email w subject body)"
  unfolding send_email_def Let_def
  by (auto intro!: inert_intros inert_smtp_submit split: option.split)

lemma inert_send_whatsapp: "inert (send_whatsapp w subject body)"
  unfolding send_whatsapp_def Let_def
  by (auto intro!: inert_intros inert_twilio_submit)

lemma inert_send_notifications: "inert (send_notifications w url state metadata)"
  unfolding send_notifications_def Let_def
  by (auto intro!: inert_intros inert_send_email inert_send_whatsapp
        split: option.split sum.split)

lemma send_email_returns:
  assumes "py_int (getenv_default w ''SMTP_PORT'' ''587'') = Some port"
    and "\<forall>msg e. smtp_session w msg = Some e \<longrightarrow> is_Exception e"
  shows "\<exists>tr sent. send_email w subject body fs = (tr, fs, Inr sent)"
  using assms
  by (auto simp: send_email_def smtp_submit_def prog_defs Let_def split: option.splits)

lemma send_whatsapp_returns:
  assumes "\<forall>msg e. twilio_post w msg = Some e \<longrightarrow> is_Exception e"
  shows "\<exists>tr sent. send_whatsapp w subject body fs = (tr, fs, Inr sent)"
  using assms
  by (auto simp: send_whatsapp_def twilio_submit_def prog_defs Let_def split: option.splits)

lemma quiet_notifications:
  assumes "env w ''SMTP_PORT'' = None" and "\<not> email_configured w"
    and "\<not> list_all truthy [getenv w ''TWILIO_ACCOUNT_SID'', getenv w ''TWILIO_AUTH_TOKEN'',
                              getenv w ''WHATSAPP_FROM'', getenv w ''WHATSAPP_TO'']"
    and "map_of state ''last_checked'' = Some c"
    and "dict_get md ''matched_keywords'' (PList []) = PList (map PStr ks)"
  shows "snd (snd (send_notifications w url state md fs)) = Inr ()"
proof -
  have e: "send_email w subject body fs = ([Log EmailNotConfigured], fs, Inr False)"
    for subject body
    using assms(1,2)
    by (auto simp: send_email_def email_configured_def getenv_default_def py_int_587 prog_defs
          py_or_def Let_def)
  have t: "send_whatsapp w subject body fs = ([Log WhatsAppNotConfigured], fs, Inr False)"
    for subject body
    using assms(3) by (auto simp: send_whatsapp_def prog_defs Let_def)
  have j: "\<exists>t. (if py_truthy (PList (map PStr ks)) then join_value '', '' (PList (map PStr ks))
              else Inr ''N/A'') = Inr t"
    by (simp add: list_all_iff)
  then obtain mt where mt: "(if py_truthy (PList (map PStr ks))
              then join_value '', '' (PList (map PStr ks)) else Inr ''N/A'') = Inr mt"
    by blast
  show ?thesis
    unfolding send_notifications_def Let_def assms(4,5) mt
    by (simp add: then_do_def emit_def ret_def e t)
qed

lemma port_failure:
  assumes "py_int (getenv_default w ''SMTP_PORT'' ''587'') = None"
    and "map_of state ''last_checked'' = Some c"
    and "dict_get md ''matched_keywords'' (PList []) = PList (map PStr ks)"
  shows "\<exists>body. send_notifications w url state md fs
                  = ([Log (ChangeDetected body)], fs, Inl (Raised ValueError))"
proof -
  have e: "send_email w subject body fs = ([], fs, Inl (Raised ValueError))" for subject body
    using assms(1) by (simp add: send_email_def raise_def)
  from join_strings [of ks] obtain mt where
    mt: "(if py_truthy (PList (map PStr ks))
          then join_value '', '' (PList (map PStr ks)) else Inr ''N/A'') = Inr mt"
    by blast
  show ?thesis
    unfolding send_notifications_def Let_def assms(2,3) mt
    by (simp add: then_do_def emit_def e)
qed

lemma notifier_banner:
  assumes "map_of state ''last_checked'' = Some c"
    and "dict_get md ''matched_keywords'' (PList []) = PList (map PStr ks)"
  shows "\<exists>body tr r. send_notifications w url state md fs
                      = (Log (ChangeDetected body) # tr, fs, r)"
proof -
  from join_strings [of ks] obtain mt where
    mt: "(if py_truthy (PList (map PStr ks))
          then join_value '', '' (PList (map PStr ks)) else Inr ''N/A'') = Inr mt"
    by blast
  let ?body = "notification_body w url c mt (dict_get md ''method'' (PStr ''unknown''))"
  let ?rest = "then_do (send_email w notification_subject ?body) (\<lambda>email_sent.
                 then_do (send_whatsapp w notification_subject ?body) (\<lambda>whatsapp_sent.
                   if \<not> email_sent \<and> \<not> whatsapp_sent
                   then emit (Log NoNotificationsWarning) else ret ()))"
  have "inert ?rest"
    by (auto intro!: inert_intros inert_send_email inert_send_whatsapp)
  from inertD [OF this, of fs] obtain tr r where "?rest fs = (tr, fs, r)" by blast
  then have "send_notifications w url state md fs = (Log (ChangeDetected ?body) # tr, fs, r)"
    unfolding send_notifications_def Let_def assms mt
    by (simp add: emit_then)
  then show ?thesis by blast
qed

text \<open>
  When the port setting is a number and no submission is interrupted, the notifier runs
  the mail channel, then the messaging channel whatever the mail channel did, and returns;
  it prints the warning exactly when neither channel sent.
\<close>

theorem channels_independent:
  assumes "py_int (getenv_default w ''SMTP_PORT'' ''587'') = Some port"
    and "\<forall>msg e. smtp_session w msg = Some e \<longrightarrow> is_Exception e"
    and "\<forall>msg e. twilio_post w msg = Some e \<longrightarrow> is_Exception e"
    and "map_of state ''last_checked'' = Some c"
    and "dict_get md ''matched_keywords'' (PList []) = PList (map PStr ks)"
  shows "\<exists>body tr_mail mail_sent tr_wa wa_sent.
           send_email w notification_subject body fs = (tr_mail, fs, Inr mail_sent)
           \<and> send_whatsapp w notification_subject body fs = (tr_wa, fs, Inr wa_sent)
           \<and> send_notifications w url state md fs
               = (Log (ChangeDetected body) # tr_mail @ tr_wa
                    @ (if \<not> mail_sent \<and> \<not> wa_sent then [Log NoNotificationsWarning] else []),
                  fs, Inr ())"
proof -
  from join_strings [of ks] obtain mt where
    mt: "(if py_truthy (PList (map PStr ks))
          then join_value '', '' (PList (map PStr ks)) else Inr ''N/A'') = Inr mt"
    by blast
  let ?body = "notification_body w url c mt (dict_get md ''method'' (PStr ''unknown''))"
  from send_email_returns [OF assms(1,2)] obtain tr_mail mail_sent where
    e: "send_email w notification_subject ?body fs = (tr_mail, fs, Inr mail_sent)"
    by blast
  from send_whatsapp_returns [OF assms(3)] obtain tr_wa wa_sent where
    t: "send_whatsapp w notification_subject ?body fs = (tr_wa, fs, Inr wa_sent)"
    by blast
  have "send_notifications w url state md fs
               = (Log (ChangeDetected ?body) # tr_mail @ tr_wa
                    @ (if \<not> mail_sent \<and> \<not> wa_sent then [Log NoNotificationsWarning] else []),
                  fs, Inr ())"
    unfolding send_notifications_def Let_def assms(4,5) mt
    by (simp add: then_do_def emit_def ret_def e t)
  with e t show ?thesis by blast
qed

theorem channels_independent_witness:
  "snd (snd (send_notifications mail_down_world ''https://example.org''
               [(''last_checked'', PStr ''2024-05-01T12:00:00+00:00'')]
               [(''method'', PStr ''keywords''), (''matched_keywords'', PList [PStr ''Sale''])]
               None)) = Inr ()
   \<and> Log EmailFailed \<in> set (fst (send_notifications mail_down_world ''https://example.org''
               [(''last_checked'', PStr ''2024-05-01T12:00:00+00:00'')]
               [(''method'', PStr ''keywords''), (''matched_keywords'', PList [PStr ''Sale''])]
               None))
   \<and> Log WhatsAppSent \<in> set (fst (send_notifications mail_down_world ''https://example.org''
               [(''last_checked'', PStr ''2024-05-01T12:00:00+00:00'')]
               [(''method'', PStr ''keywords''), (''matched_keywords'', PList [PStr ''Sale''])]
               None))"
proof -
  have env: "env mail_down_world = map_of
       [(''SMTP_HOST'', ''smtp.example.org''), (''SMTP_USER'', ''watcher''),
        (''SMTP_PASS'', ''secret''), (''EMAIL_TO'', ''ops@example.org''),
        (''TWILIO_ACCOUNT_SID'', ''AC1''), (''TWILIO_AUTH_TOKEN'', ''token''),
        (''WHATSAPP_FROM'', ''whatsapp:+1''), (''WHATSAPP_TO'', ''whatsapp:+2'')]"
    and smtp: "smtp_session mail_down_world = (\<lambda>msg. Some SMTPException)"
    and twilio: "twilio_post mail_down_world = (\<lambda>msg. None)"
    by (simp_all add: mail_down_world_def quiet_world_def)
  have p: "py_int (getenv_default mail_down_world ''SMTP_PORT'' ''587'') = Some 587"
    by (simp add: getenv_default_def env py_int_587)
  have mail: "Log EmailFailed \<in> set (fst (send_email mail_down_world subject body None))"
    for subject body
    by (simp add: send_email_def p getenv_def env py_or_def smtp smtp_submit_def prog_defs
          Let_def)
  have wa: "Log WhatsAppSent \<in> set (fst (send_whatsapp mail_down_world subject body None))"
    for subject body
    by (simp add: send_whatsapp_def getenv_def env twilio twilio_submit_def prog_defs Let_def)
  from channels_independent [OF p, where ks = "[''Sale'']"
      and state = "[(''last_checked'', PStr ''2024-05-01T12:00:00+00:00'')]"
      and md = "[(''method'', PStr ''keywords''), (''matched_keywords'', PList [PStr ''Sale''])]"
      and url = "''https://example.org''" and fs = None]
  obtain body tr_mail mail_sent tr_wa wa_sent where
    "send_email mail_down_world notification_subject body None = (tr_mail, None, Inr mail_sent)"
    "send_whatsapp mail_down_world notification_subject body None = (tr_wa, None, Inr wa_sent)"
    "send_notifications mail_down_world ''https://example.org''
               [(''last_checked'', PStr ''2024-05-01T12:00:00+00:00'')]
               [(''method'', PStr ''keywords''), (''matched_keywords'', PList [PStr ''Sale''])]
               None
       = (Log (ChangeDetected body) # tr_mail @ tr_wa
            @ (if \<not> mail_sent \<and> \<not> wa_sent then [Log NoNotificationsWarning] else []),
          None, Inr ())"
    by (auto simp: smtp twilio dict_get_def)
  with mail [of notification_subject body] wa [of notification_subject body]
  show ?thesis by simp
qed

subsection \<open>One run\<close>

lemma main_body_config_error:
  assumes "\<not> config_ok w"
  shows "\<exists>msg. main_body w fs = ([Log msg], fs, Inl (SysExit 2))"
  using assms
  by (auto simp: config_ok_def main_body_def watch_keywords_def keywords_list_parse
        prog_defs Let_def)

lemma main_body_forced:
  assumes "config_ok w" and "force_notify w"
  shows "main_body w =
           then_do (emit (Log TestNotice)) (\<lambda>_.
           then_do
             (send_notifications w (the (watch_url w))
                [(''last_checked'', PStr (now_utc_iso w))]
                [(''method'', PStr ''test''), (''matched_keywords'', PList [PStr ''TEST''])])
             (\<lambda>_. ret ForcedTest))"
  using assms
  by (auto simp: config_ok_def main_body_def watch_keywords_def keywords_list_parse Let_def)

lemma main_body_check:
  assumes "config_ok w" and "\<not> force_notify w"
  shows "main_body w =
           then_do load_state (\<lambda>state.
           then_do (fetch w (the (watch_url w)) 3) (\<lambda>html.
             detect w (the (watch_url w)) state
               (extract_signal w html (watch_selector w) (watch_keywords w))))"
  using assms
  by (auto simp: config_ok_def main_body_def watch_keywords_def keywords_list_parse Let_def)

lemma main_body_check_eval:
  assumes "config_ok w" and "\<not> force_notify w"
    and "load_state fs = (tr1, fs, r1)"
    and "fetch w (the (watch_url w)) 3 fs = (tr2, fs, r2)"
  shows "main_body w fs =
           (case r1 of
              Inl a \<Rightarrow> (tr1, fs, Inl a)
            | Inr st \<Rightarrow>
                (case r2 of
                   Inl a \<Rightarrow> (tr1 @ tr2, fs, Inl a)
                 | Inr html \<Rightarrow>
                     (case detect w (the (watch_url w)) st
                             (extract_signal w html (watch_selector w) (watch_keywords w)) fs of
                        (tr3, fs3, r3) \<Rightarrow> (tr1 @ tr2 @ tr3, fs3, r3))))"
  using assms(3,4)
  by (simp add: main_body_check [OF assms(1,2)] then_do_def split: sum.split prod.split)

lemma detect_dict:
  "detect w url (PDict d0) (s, summary, md) fs =
     (let d = AList.update ''last_checked'' (PStr (now_utc_iso w)) d0;
          st1 = PDict (AList.update ''last_match'' (PStr summary)
                         (AList.update ''last_hash'' (PStr (sha256 w s)) d));
          st2 = PDict (AList.update ''last_match'' (PStr summary) d)
      in if dict_get d0 ''last_hash'' PNone = PNone then
           ([SaveState st1, Log BaselineEstablished], Some (Doc st1), Inr Baseline)
         else if dict_get d0 ''last_hash'' PNone \<noteq> PStr (sha256 w s) then
           (case send_notifications w url d md fs of
              (tr, fs', Inl a) \<Rightarrow> (tr, fs', Inl a)
            | (tr, fs', Inr u) \<Rightarrow> (tr @ [SaveState st1], Some (Doc st1), Inr Changed))
         else ([Log NoChangeDetected, SaveState st2], Some (Doc st2), Inr Unchanged))"
  by (auto simp: detect_def Let_def dict_get_update_other prog_defs save_state_def
        split: prod.splits sum.splits)

lemma detect_not_dict:
  "(\<And>d. state \<noteq> PDict d) \<Longrightarrow> detect w url state x fs = ([], fs, Inl (Raised TypeError))"
  by (cases state; cases x) (auto simp: detect_def raise_def Let_def)

lemma last_hash_saved:
  "last_hash (Some (Doc (PDict (AList.update ''last_match'' m
      (AList.update ''last_hash'' (PStr h) d))))) = Some (PStr h)"
  by (simp add: last_hash_def update_conv')

lemma last_hash_kept:
  "last_hash (Some (Doc (PDict (AList.update ''last_match'' m
      (AList.update ''last_checked'' c d))))) = last_hash (Some (Doc (PDict d)))"
  by (simp add: last_hash_def update_conv')

lemma last_match_saved:
  "last_match (Some (Doc (PDict (AList.update ''last_match'' m d)))) = Some m"
  by (simp add: last_match_def update_conv')

lemma main_of_body:
  assumes "main_body w fs = (tr, fs', r)"
  shows "file_after (main w fs) = fs'"
    and "completed (main w fs) \<longleftrightarrow> r = Inr Baseline \<or> r = Inr Changed \<or> r = Inr Unchanged"
    and "outcome (main w fs) =
           (case r of
              Inr oc \<Rightarrow> oc
            | Inl (SysExit n) \<Rightarrow> ConfigError
            | Inl (Raised e) \<Rightarrow>
                if is_RequestException e then NetworkFailure
                else if e = KeyboardInterrupt then Interrupted else Fatal)"
    and "exit_status (main w fs) =
           (case r of
              Inr oc \<Rightarrow> 0
            | Inl (SysExit n) \<Rightarrow> n
            | Inl (Raised e) \<Rightarrow>
                if is_RequestException e then 0
                else if e = KeyboardInterrupt then 130 else 1)"
  using assms
  by (auto simp: main_def completed_def split: sum.splits abort.splits)

lemma main_trace:
  assumes "main_body w fs = (tr, fs', r)"
  shows "trace (main w fs) =
           tr @ (case r of
                   Inl (Raised e) \<Rightarrow>
                     if is_RequestException e then [Log NetworkErrorLog]
                     else if e = KeyboardInterrupt then [Log InterruptedLog]
                     else if is_Exception e then [Log UnexpectedErrorLog] else []
                 | _ \<Rightarrow> [])"
  using assms by (auto simp: main_def split: sum.splits abort.splits)

lemma exit_of_raise:
  assumes "main_body w fs = (tr, fs', Inl (Raised e))"
    and "\<not> is_RequestException e" and "e \<noteq> KeyboardInterrupt"
  shows "exit_status (main w fs) = 1" and "outcome (main w fs) = Fatal"
    and "file_after (main w fs) = fs'"
  using main_of_body [OF assms(1)] assms(2,3) by simp_all

lemma detect_cases:
  "(\<exists>tr st oc. detect w url state x fs = (tr, Some (Doc st), Inr oc)
       \<and> (oc = Baseline \<or> oc = Changed \<or> oc = Unchanged)
       \<and> last_hash (Some (Doc st)) \<noteq> None)
   \<or> (\<exists>tr a. detect w url state x fs = (tr, fs, Inl (Raised a)))"
proof (cases "\<exists>d. state = PDict d")
  case False
  then show ?thesis using detect_not_dict [of state w url x fs] by simp
next
  case True
  then obtain d0 where st: "state = PDict d0" by blast
  obtain s summary md where x: "x = (s, summary, md)" by (cases x) auto
  let ?d = "AList.update ''last_checked'' (PStr (now_utc_iso w)) d0"
  obtain tr r where n: "send_notifications w url ?d md fs = (tr, fs, r)"
    and nx: "\<forall>n. r \<noteq> Inl (SysExit n)"
    using inertD [OF inert_send_notifications] by blast
  have kept: "dict_get d0 ''last_hash'' PNone \<noteq> PNone \<Longrightarrow>
                last_hash (Some (Doc (PDict d0))) \<noteq> None"
    by (auto simp: dict_get_def last_hash_def split: option.splits)
  show ?thesis
  proof (cases r)
    case (Inr u)
    with n kept show ?thesis
      unfolding st x detect_dict Let_def
      by (simp add: last_hash_saved last_hash_kept)
  next
    case (Inl a)
    with nx obtain e where "a = Raised e" by (cases a) auto
    with n Inl kept show ?thesis
      unfolding st x detect_dict Let_def
      by (simp add: last_hash_saved last_hash_kept)
  qed
qed

lemma main_body_cases:
  "(\<not> config_ok w \<and> (\<exists>msg. main_body w fs = ([Log msg], fs, Inl (SysExit 2))))
   \<or> (config_ok w \<and>
        ((\<exists>tr st oc. main_body w fs = (tr, Some (Doc st), Inr oc)
            \<and> (oc = Baseline \<or> oc = Changed \<or> oc = Unchanged)
            \<and> last_hash (Some (Doc st)) \<noteq> None)
         \<or> (\<exists>tr. main_body w fs = (tr, fs, Inr ForcedTest))
         \<or> (\<exists>tr e. main_body w fs = (tr, fs, Inl (Raised e)))))"
proof (cases "config_ok w")
  case False
  then show ?thesis using main_body_config_error by blast
next
  case ok: True
  show ?thesis
  proof (cases "force_notify w")
    case True
    obtain tr r where n: "send_notifications w (the (watch_url w))
                [(''last_checked'', PStr (now_utc_iso w))]
                [(''method'', PStr ''test''), (''matched_keywords'', PList [PStr ''TEST''])] fs
              = (tr, fs, r)" and nx: "\<forall>n. r \<noteq> Inl (SysExit n)"
      using inertD [OF inert_send_notifications] by blast
    have body: "main_body w fs =
            (Log TestNotice # tr, fs, case r of Inl a \<Rightarrow> Inl a | Inr u \<Rightarrow> Inr ForcedTest)"
      using n by (simp add: main_body_forced [OF ok True] prog_defs split: sum.split)
    show ?thesis
    proof (cases r)
      case (Inr u)
      with body ok show ?thesis by simp
    next
      case (Inl a)
      with nx obtain e where "a = Raised e" by (cases a) auto
      with body ok Inl show ?thesis by simp
    qed
  next
    case False
    obtain tr1 r1 where l: "load_state fs = (tr1, fs, r1)" and lx: "\<forall>n. r1 \<noteq> Inl (SysExit n)"
      using inertD [OF inert_load_state] by blast
    obtain tr2 r2 where f: "fetch w (the (watch_url w)) 3 fs = (tr2, fs, r2)"
      and fx: "\<forall>n. r2 \<noteq> Inl (SysExit n)"
      using inertD [OF inert_fetch] by blast
    note body = main_body_check_eval [OF ok False l f]
    show ?thesis
    proof (cases r1)
      case (Inl a)
      with lx obtain e where "a = Raised e" by (cases a) auto
      with body Inl ok show ?thesis by simp
    next
      case st: (Inr st)
      show ?thesis
      proof (cases r2)
        case (Inl a)
        with fx obtain e where "a = Raised e" by (cases a) auto
        with body st Inl ok show ?thesis by simp
      next
        case (Inr html)
        let ?x = "extract_signal w html (watch_selector w) (watch_keywords w)"
        from detect_cases [of w "the (watch_url w)" st ?x fs]
        consider (saved) tr st' oc where
            "detect w (the (watch_url w)) st ?x fs = (tr, Some (Doc st'), Inr oc)"
            "oc = Baseline \<or> oc = Changed \<or> oc = Unchanged"
            "last_hash (Some (Doc st')) \<noteq> None"
          | (stopped) tr a where
            "detect w (the (watch_url w)) st ?x fs = (tr, fs, Inl (Raised a))"
          by blast
        then show ?thesis
        proof cases
          case saved
          from body st Inr saved(1)
          have "main_body w fs = (tr1 @ tr2 @ tr, Some (Doc st'), Inr oc)" by simp
          with saved(2,3) ok show ?thesis by blast
        next
          case stopped
          from body st Inr stopped
          have "main_body w fs = (tr1 @ tr2 @ tr, fs, Inl (Raised a))" by simp
          with ok show ?thesis by blast
        qed
      qed
    qed
  qed
qed

lemma main_run_cases:
  "(completed (main w fs) \<and> last_hash (file_after (main w fs)) \<noteq> None)
   \<or> (\<not> completed (main w fs) \<and> file_after (main w fs) = fs)"
proof -
  from main_body_cases [of w fs]
  consider (config) msg where "main_body w fs = ([Log msg], fs, Inl (SysExit 2))"
    | (saved) tr st oc where "main_body w fs = (tr, Some (Doc st), Inr oc)"
        "oc = Baseline \<or> oc = Changed \<or> oc = Unchanged" "last_hash (Some (Doc st)) \<noteq> None"
    | (forced) tr where "main_body w fs = (tr, fs, Inr ForcedTest)"
    | (raised) tr e where "main_body w fs = (tr, fs, Inl (Raised e))"
    by blast
  then show ?thesis
  proof cases
    case config
    from main_of_body(1,2) [OF this] show ?thesis by simp
  next
    case saved
    from main_of_body(1,2) [OF saved(1)] saved(2,3) show ?thesis by auto
  next
    case forced
    from main_of_body(1,2) [OF this] show ?thesis by simp
  next
    case raised
    from main_of_body(1,2) [OF this] show ?thesis by simp
  qed
qed

lemma main_network_failure:
  assumes "config_ok w" and "\<not> force_notify w" and "fs \<noteq> Some Undecodable"
    and "\<forall>k<3. request_failed (http_get w (the (watch_url w)) k)"
  shows "\<exists>tr1 e. set tr1 \<subseteq> {Log StateLoadWarning} \<and> is_RequestException e
           \<and> main_body w fs
               = (tr1 @ attempts_through (the (watch_url w)) 0 2, fs, Inl (Raised e))"
proof -
  have "\<exists>tr1 st. load_state fs = (tr1, fs, Inr st) \<and> set tr1 \<subseteq> {Log StateLoadWarning}"
  proof (cases fs)
    case None
    then show ?thesis by (simp add: load_state_result)
  next
    case (Some c)
    with assms(3) show ?thesis by (cases c) (simp_all add: load_state_result)
  qed
  then obtain tr1 st where l: "load_state fs = (tr1, fs, Inr st)"
    "set tr1 \<subseteq> {Log StateLoadWarning}"
    by blast
  from fetch_from_exhausted [of 0 3 w "the (watch_url w)" fs] assms(4)
  obtain e where e: "is_RequestException e"
    "fetch w (the (watch_url w)) 3 fs
       = (attempts_through (the (watch_url w)) 0 2, fs, Inl (Raised e))"
    by (auto simp: fetch_def)
  from main_body_check_eval [OF assms(1,2) l(1) e(2)] l(2) e(1) show ?thesis by auto
qed

lemma first_run_baseline:
  "outcome (main watch_world None) = Baseline
   \<and> last_hash (file_after (main watch_world None)) = Some (PStr ''sha256:huge sale today'')"
proof -
  have l: "load_state None = ([], None, Inr default_state)"
    by (simp add: load_state_result)
  have f: "fetch watch_world (the (watch_url watch_world)) 3 None
             = ([HttpGet ''https://example.org'' 0], None, Inr ''<p>huge sale today</p>'')"
    by (simp add: fetch_first_try http_get_examples watch_url_examples)
  from main_body_check_eval [OF config_ok_examples(1) force_notify_examples(1) l f]
  obtain tr st where b: "main_body watch_world None = (tr, Some (Doc (PDict
        (AList.update ''last_match'' st (AList.update ''last_hash''
           (PStr ''sha256:huge sale today'') (AList.update ''last_checked''
             (PStr (now_utc_iso watch_world))
             [(''last_hash'', PNone), (''last_match'', PNone), (''last_checked'', PNone)]))))),
        Inr Baseline)"
    by (simp add: default_state_def watch_world_signal detect_dict Let_def dict_get_def
          sha_watch_world)
  from main_of_body [OF b] show ?thesis by (simp add: last_hash_def)
qed

lemma offline_run_stops:
  "\<not> completed (main offline_world None)" "file_after (main offline_world None) = None"
proof -
  have "\<forall>k<3. request_failed (http_get offline_world (the (watch_url offline_world)) k)"
    by (simp add: offline_world_def)
  from main_network_failure [OF config_ok_examples(2) force_notify_examples(2) _ this, of None]
  obtain t e where "main_body offline_world None = (t, None, Inl (Raised e))"
    by auto
  from main_of_body(1,2) [OF this]
  show "\<not> completed (main offline_world None)" "file_after (main offline_world None) = None"
    by simp_all
qed

lemma interrupted_body:
  "snd (snd (main_body interrupted_world None)) = Inl (Raised KeyboardInterrupt)"
proof -
  have l: "load_state None = ([], None, Inr default_state)"
    by (simp add: load_state_result)
  have f: "fetch interrupted_world (the (watch_url interrupted_world)) 3 None
             = ([HttpGet ''https://example.org'' 0], None, Inl (Raised KeyboardInterrupt))"
    by (simp add: fetch_def fetch_from_stops http_get_examples watch_url_examples)
  from main_body_check_eval [OF config_ok_examples(6) force_notify_examples(4) l f]
  show ?thesis by simp
qed

lemma list_state_body:
  "snd (snd (main_body watch_world (Some (Doc (PList []))))) = Inl (Raised TypeError)"
proof -
  have l: "load_state (Some (Doc (PList []))) = ([], Some (Doc (PList [])), Inr (PList []))"
    by (simp add: load_state_result)
  have f: "fetch watch_world (the (watch_url watch_world)) 3 (Some (Doc (PList [])))
             = ([HttpGet ''https://example.org'' 0], Some (Doc (PList [])),
                Inr ''<p>huge sale today</p>'')"
    by (simp add: fetch_first_try http_get_examples watch_url_examples)
  from main_body_check_eval [OF config_ok_examples(1) force_notify_examples(1) l f]
  show ?thesis by (simp add: detect_not_dict)
qed

lemma undecodable_body:
  "snd (snd (main_body watch_world (Some Undecodable))) = Inl (Raised UnicodeDecodeError)"
proof -
  have l: "load_state (Some Undecodable)
             = ([], Some Undecodable, Inl (Raised UnicodeDecodeError))"
    by (simp add: load_state_result)
  obtain tr2 r2 where f: "fetch watch_world (the (watch_url watch_world)) 3 (Some Undecodable)
             = (tr2, Some Undecodable, r2)"
    using inertD [OF inert_fetch] by blast
  from main_body_check_eval [OF config_ok_examples(1) force_notify_examples(1) l f]
  show ?thesis by simp
qed

subsection \<open>Change detection\<close>

text \<open>
  Take a run that reaches the comparison: the configuration is valid, the test
  mode is off, the state file loads as an object \<open>d0\<close> and the page is fetched. Let \<open>F\<close> be
  the stored fingerprint, \<open>d0.get("last_hash")\<close>, and \<open>H\<close> the fingerprint of the extracted
  signal. If \<open>F\<close> is absent (no entry, or null) the outcome is Baseline and \<open>H\<close> is stored.
  If \<open>F\<close> is \<open>H\<close> the outcome is Unchanged, the stored fingerprint is still \<open>F\<close> and the
  stored summary is the new one. Otherwise the run announces the change and calls the
  notifier; when the notifier has returned, the outcome is Changed and \<open>H\<close> is stored
  (lines 311 to 316 save after notifying).
\<close>

theorem change_detection:
  assumes "config_ok w" and "\<not> force_notify w"
    and "snd (snd (load_state fs)) = Inr (PDict d0)"
    and "snd (snd (fetch w (the (watch_url w)) 3 fs)) = Inr html"
    and "extract_signal w html (watch_selector w) (watch_keywords w) = (s, summary, md)"
  shows "(dict_get d0 ''last_hash'' PNone = PNone \<longrightarrow>
            outcome (main w fs) = Baseline \<and> exit_status (main w fs) = 0
            \<and> last_hash (file_after (main w fs)) = Some (PStr (sha256 w s))
            \<and> last_match (file_after (main w fs)) = Some (PStr summary))
       \<and> (dict_get d0 ''last_hash'' PNone = PStr (sha256 w s) \<longrightarrow>
            outcome (main w fs) = Unchanged \<and> exit_status (main w fs) = 0
            \<and> last_hash (file_after (main w fs)) = Some (dict_get d0 ''last_hash'' PNone)
            \<and> last_match (file_after (main w fs)) = Some (PStr summary))
       \<and> (dict_get d0 ''last_hash'' PNone \<noteq> PNone
            \<and> dict_get d0 ''last_hash'' PNone \<noteq> PStr (sha256 w s)
            \<longrightarrow>
            (\<exists>body. Log (ChangeDetected body) \<in> set (trace (main w fs)))
            \<and> (snd (snd (send_notifications w (the (watch_url w))
                           (AList.update ''last_checked'' (PStr (now_utc_iso w)) d0) md fs)) = Inr ()
                 \<longrightarrow>
                 outcome (main w fs) = Changed \<and> exit_status (main w fs) = 0
                 \<and> last_hash (file_after (main w fs)) = Some (PStr (sha256 w s))
                 \<and> last_match (file_after (main w fs)) = Some (PStr summary)))"
proof -
  obtain tr1 where l: "load_state fs = (tr1, fs, Inr (PDict d0))"
    using inertD [OF inert_load_state, of fs] assms(3) by auto
  obtain tr2 where f: "fetch w (the (watch_url w)) 3 fs = (tr2, fs, Inr html)"
    using inertD [OF inert_fetch, of w "the (watch_url w)" 3 fs] assms(4) by auto
  let ?d = "AList.update ''last_checked'' (PStr (now_utc_iso w)) d0"
  let ?F = "dict_get d0 ''last_hash'' PNone"
  have body: "main_body w fs =
          (case detect w (the (watch_url w)) (PDict d0) (s, summary, md) fs of
             (tr3, fs3, r3) \<Rightarrow> (tr1 @ tr2 @ tr3, fs3, r3))"
    using main_body_check_eval [OF assms(1,2) l f] assms(5) by simp
  have base: "outcome (main w fs) = Baseline \<and> exit_status (main w fs) = 0
            \<and> last_hash (file_after (main w fs)) = Some (PStr (sha256 w s))
            \<and> last_match (file_after (main w fs)) = Some (PStr summary)"
    if "?F = PNone"
  proof -
    from that body obtain tr st where
      b: "main_body w fs = (tr, Some (Doc (PDict (AList.update ''last_match'' (PStr summary)
                         (AList.update ''last_hash'' (PStr (sha256 w s)) ?d)))), Inr Baseline)"
      by (simp add: detect_dict Let_def)
    from main_of_body [OF b] show ?thesis
      by (simp add: last_hash_saved last_match_saved)
  qed
  have same: "outcome (main w fs) = Unchanged \<and> exit_status (main w fs) = 0
            \<and> last_hash (file_after (main w fs)) = Some ?F
            \<and> last_match (file_after (main w fs)) = Some (PStr summary)"
    if "?F = PStr (sha256 w s)"
  proof -
    from that body obtain tr where
      b: "main_body w fs =
            (tr, Some (Doc (PDict (AList.update ''last_match'' (PStr summary) ?d))), Inr Unchanged)"
      by (simp add: detect_dict Let_def)
    have "last_hash (Some (Doc (PDict d0))) = Some ?F"
      using that by (auto simp: last_hash_def dict_get_def split: option.splits)
    with main_of_body [OF b] show ?thesis
      by (simp add: last_hash_kept last_match_saved)
  qed
  have diff: "outcome (main w fs) = Changed \<and> exit_status (main w fs) = 0
            \<and> last_hash (file_after (main w fs)) = Some (PStr (sha256 w s))
            \<and> last_match (file_after (main w fs)) = Some (PStr summary)"
    if h1: "?F \<noteq> PNone" and h2: "?F \<noteq> PStr (sha256 w s)"
      and h3: "snd (snd (send_notifications w (the (watch_url w)) ?d md fs)) = Inr ()"
  proof -
    obtain tr3 where n: "send_notifications w (the (watch_url w)) ?d md fs = (tr3, fs, Inr ())"
      using inertD [OF inert_send_notifications, of w "the (watch_url w)" ?d md fs] h3
      by auto
    from h1 h2 n body obtain tr where
      b: "main_body w fs = (tr, Some (Doc (PDict (AList.update ''last_match'' (PStr summary)
                         (AList.update ''last_hash'' (PStr (sha256 w s)) ?d)))), Inr Changed)"
      by (simp add: detect_dict Let_def)
    from main_of_body [OF b] show ?thesis
      by (simp add: last_hash_saved last_match_saved)
  qed
  have banner: "\<exists>body. Log (ChangeDetected body) \<in> set (trace (main w fs))"
    if h1: "?F \<noteq> PNone" and h2: "?F \<noteq> PStr (sha256 w s)"
  proof -
    from extracted_matches [of w html "watch_selector w" "watch_keywords w"] assms(5)
    obtain ks where ks: "dict_get md ''matched_keywords'' (PList []) = PList (map PStr ks)"
      by auto
    have c: "map_of ?d ''last_checked'' = Some (PStr (now_utc_iso w))"
      by (simp add: update_conv')
    from notifier_banner [OF c ks, of w "the (watch_url w)" fs]
    obtain body tr3 r3 where
      n: "send_notifications w (the (watch_url w)) ?d md fs
            = (Log (ChangeDetected body) # tr3, fs, r3)"
      by blast
    from h1 h2 n body obtain tr4 fs4 r4 where
      b: "main_body w fs = (tr1 @ tr2 @ Log (ChangeDetected body) # tr4, fs4, r4)"
      by (cases r3) (auto simp: detect_dict Let_def)
    from main_trace [OF b] show ?thesis by auto
  qed
  from base same diff banner show ?thesis by blast
qed

theorem change_detection_witness:
  "outcome (main watch_world None) = Baseline
   \<and> last_hash (file_after (main watch_world None)) = Some (PStr ''sha256:huge sale today'')
   \<and> outcome (main watch_world (Some same_state)) = Unchanged
   \<and> last_hash (file_after (main watch_world (Some same_state)))
        = Some (PStr ''sha256:huge sale today'')
   \<and> outcome (main watch_world (Some old_state)) = Changed
   \<and> last_hash (file_after (main watch_world (Some old_state)))
        = Some (PStr ''sha256:huge sale today'')"
proof -
  let ?html = "''<p>huge sale today</p>''"
  let ?summary = "fst (snd (keyword_signal watch_world ?html (Some [''Sale''])))"
  let ?md = "[(''method'', PStr ''keywords''), (''total_keywords'', PInt 1),
         (''matched_keywords'', PList [PStr ''Sale'']), (''page_length'', PInt 15)]"
  have f: "snd (snd (fetch watch_world (the (watch_url watch_world)) 3 fs)) = Inr ?html" for fs
    by (simp add: fetch_first_try http_get_examples)
  note x = watch_world_signal [of ?html]
  note ok = config_ok_examples(1) force_notify_examples(1)
  have l1: "snd (snd (load_state None))
              = Inr (PDict [(''last_hash'', PNone), (''last_match'', PNone),
                            (''last_checked'', PNone)])"
    by (simp add: load_state_result default_state_def)
  have l2: "snd (snd (load_state (Some same_state)))
              = Inr (PDict [(''last_hash'', PStr ''sha256:huge sale today'')])"
    by (simp add: load_state_result same_state_def)
  have l3: "snd (snd (load_state (Some old_state)))
              = Inr (PDict [(''last_hash'', PStr ''sha256:old''), (''last_match'', PStr ''before''),
                  (''last_checked'', PStr ''2024-04-30T12:00:00+00:00'')])"
    by (simp add: load_old_state)
  have n: "snd (snd (send_notifications watch_world (the (watch_url watch_world))
             (AList.update ''last_checked'' (PStr (now_utc_iso watch_world))
                [(''last_hash'', PStr ''sha256:old''), (''last_match'', PStr ''before''),
                  (''last_checked'', PStr ''2024-04-30T12:00:00+00:00'')]) ?md (Some old_state)))
           = Inr ()"
    by (rule quiet_notifications [OF no_channels(1,2,3), where ks = "[''Sale'']"])
       (simp_all add: dict_get_def)
  from change_detection [OF ok l1 f x]
  have 1: "outcome (main watch_world None) = Baseline
   \<and> last_hash (file_after (main watch_world None)) = Some (PStr ''sha256:huge sale today'')"
    by (simp add: dict_get_def sha_watch_world)
  from change_detection [OF ok l2 f x]
  have 2: "outcome (main watch_world (Some same_state)) = Unchanged
   \<and> last_hash (file_after (main watch_world (Some same_state)))
        = Some (PStr ''sha256:huge sale today'')"
    by (simp add: dict_get_def sha_watch_world)
  from change_detection [OF ok l3 f x] n
  have 3: "outcome (main watch_world (Some old_state)) = Changed
   \<and> last_hash (file_after (main watch_world (Some old_state)))
        = Some (PStr ''sha256:huge sale today'')"
    by (simp add: dict_get_def sha_watch_world)
  from 1 2 3 show ?thesis by blast
qed

text \<open>
  Claim C1, where the code departs from it. The state file holds the fingerprint of an
  older page, the page is fetched and its fingerprint differs, so the claim has the
  outcome Changed and the new fingerprint stored. With \<^verbatim>\<open>SMTP_PORT\<close> set to the empty
  string, line 148 raises \<^verbatim>\<open>ValueError\<close> out of the notifier that line 311 calls, lines
  314 to 316 are never reached, and the run ends as a fatal error with status 1 and the
  old fingerprint still in the file.
\<close>

theorem found_change_not_stored:
  "config_ok empty_port_world
   \<and> force_notify empty_port_world = False
   \<and> snd (snd (load_state (Some old_state)))
       = Inr (PDict [(''last_hash'', PStr ''sha256:old''), (''last_match'', PStr ''before''),
                     (''last_checked'', PStr ''2024-04-30T12:00:00+00:00'')])
   \<and> snd (snd (fetch empty_port_world (the (watch_url empty_port_world)) 3 (Some old_state)))
       = Inr ''<p>huge sale today</p>''
   \<and> fst (extract_signal empty_port_world ''<p>huge sale today</p>''
             (watch_selector empty_port_world) (watch_keywords empty_port_world))
       = ''huge sale today''
   \<and> sha256 empty_port_world ''huge sale today'' = ''sha256:huge sale today''
   \<and> last_hash (Some old_state) = Some (PStr ''sha256:old'')
   \<and> outcome (main empty_port_world (Some old_state)) = Fatal
   \<and> exit_status (main empty_port_world (Some old_state)) = 1
   \<and> file_after (main empty_port_world (Some old_state)) = Some old_state
   \<and> last_hash (file_after (main empty_port_world (Some old_state)))
       = Some (PStr ''sha256:old'')"
proof -
  have f: "fetch empty_port_world (the (watch_url empty_port_world)) 3 (Some old_state)
             = ([HttpGet ''https://example.org'' 0], Some old_state,
                Inr ''<p>huge sale today</p>'')"
    by (simp add: fetch_first_try http_get_examples watch_url_examples)
  note x = sale_signal [OF empty_port_settings(1,2,3), of "''<p>huge sale today</p>''"]
  let ?d = "AList.update ''last_checked'' (PStr (now_utc_iso empty_port_world))
              [(''last_hash'', PStr ''sha256:old''), (''last_match'', PStr ''before''),
               (''last_checked'', PStr ''2024-04-30T12:00:00+00:00'')]"
  let ?md = "[(''method'', PStr ''keywords''), (''total_keywords'', PInt 1),
         (''matched_keywords'', PList [PStr ''Sale'']), (''page_length'', PInt 15)]"
  from port_failure [OF empty_port_examples(1), where ks = "[''Sale'']" and state = ?d
      and md = ?md and url = "the (watch_url empty_port_world)" and fs = "Some old_state"]
  obtain body where "send_notifications empty_port_world (the (watch_url empty_port_world))
      ?d ?md (Some old_state)
        = ([Log (ChangeDetected body)], Some old_state, Inl (Raised ValueError))"
    by (auto simp: dict_get_def)
  with main_body_check_eval [OF config_ok_examples(3) force_notify_examples(3) load_old_state f]
  have b: "main_body empty_port_world (Some old_state)
          = ([HttpGet ''https://example.org'' 0, Log (ChangeDetected body)], Some old_state,
             Inl (Raised ValueError))"
    by (simp add: x detect_dict Let_def dict_get_def empty_port_settings(4))
  have h: "last_hash (Some old_state) = Some (PStr ''sha256:old'')"
    by (simp add: last_hash_def old_state_def)
  from exit_of_raise [OF b] h f x load_old_state config_ok_examples(3)
    force_notify_examples(3) empty_port_settings(4)
  show ?thesis by simp
qed

subsection \<open>Network failure\<close>

text \<open>
  Claim C6. In a run that reaches the fetch (valid configuration, test mode off, a state
  file that \<^verbatim>\<open>load_state\<close> gets past) and in which all three attempts end in a request
  exception, the process exits with status 0, the state file is as it was before the run,
  and nothing was saved on the way.
\<close>

theorem network_failure_leaves_state:
  assumes "config_ok w" and "\<not> force_notify w" and "fs \<noteq> Some Undecodable"
    and "\<forall>k<3. request_failed (http_get w (the (watch_url w)) k)"
  shows "exit_status (main w fs) = 0 \<and> file_after (main w fs) = fs
         \<and> outcome (main w fs) = NetworkFailure
         \<and> (\<forall>st. SaveState st \<notin> set (trace (main w fs)))"
proof -
  from main_network_failure [OF assms]
  obtain tr1 e where tr1: "set tr1 \<subseteq> {Log StateLoadWarning}" and e: "is_RequestException e"
    and body: "main_body w fs
                 = (tr1 @ attempts_through (the (watch_url w)) 0 2, fs, Inl (Raised e))"
    by blast
  have "SaveState st \<notin> set (trace (main w fs))" for st
    using main_trace [OF body] e tr1 set_attempts_through [of "SaveState st"]
    by auto
  with main_of_body [OF body] e show ?thesis by simp
qed

theorem network_failure_leaves_state_witness:
  "exit_status (main offline_world (Some old_state)) = 0
   \<and> file_after (main offline_world (Some old_state)) = Some old_state
   \<and> outcome (main offline_world (Some old_state)) = NetworkFailure"
proof -
  have "\<forall>k<3. request_failed (http_get offline_world (the (watch_url offline_world)) k)"
    by (simp add: offline_world_def)
  moreover have "Some old_state \<noteq> Some Undecodable"
    by (simp add: old_state_def)
  ultimately show ?thesis
    using network_failure_leaves_state [of offline_world "Some old_state"]
      config_ok_examples(2) force_notify_examples(2)
    by simp
qed

subsection \<open>Exit statuses\<close>

text \<open>
  Claim C9. The exit status is 2 for a configuration error, 130 for an interruption, 1 for
  a fatal error and 0 otherwise. The run ends in a configuration error exactly when the
  target URL is missing or neither a selector nor a keyword is configured; in a network
  failure exactly when a request exception leaves the body of \<^verbatim>\<open>main\<close>; as interrupted
  exactly when \<^verbatim>\<open>KeyboardInterrupt\<close> does; as fatal exactly when another \<^verbatim>\<open>Exception\<close>
  does; in success exactly when the body returns. A test run whose notifier returns, and a
  run whose three attempts all fail, are among those with status 0.
\<close>

theorem exit_status_of_run:
  "exit_status (main w fs) =
     (case outcome (main w fs) of
        ConfigError \<Rightarrow> 2 | Interrupted \<Rightarrow> 130 | Fatal \<Rightarrow> 1 | _ \<Rightarrow> 0)
   \<and> (outcome (main w fs) = ConfigError
        \<longleftrightarrow> \<not> truthy (watch_url w)
            \<or> (\<not> truthy (watch_selector w) \<and> watch_keywords w = None))
   \<and> (outcome (main w fs) = NetworkFailure
        \<longleftrightarrow> (\<exists>e. snd (snd (main_body w fs)) = Inl (Raised e) \<and> is_RequestException e))
   \<and> (outcome (main w fs) = Interrupted
        \<longleftrightarrow> snd (snd (main_body w fs)) = Inl (Raised KeyboardInterrupt))
   \<and> (outcome (main w fs) = Fatal
        \<longleftrightarrow> (\<exists>e. snd (snd (main_body w fs)) = Inl (Raised e)
                  \<and> is_Exception e \<and> \<not> is_RequestException e))
   \<and> (outcome (main w fs) \<in> {ForcedTest, Baseline, Changed, Unchanged}
        \<longleftrightarrow> (\<exists>oc. snd (snd (main_body w fs)) = Inr oc))
   \<and> (config_ok w \<and> force_notify w
        \<and> snd (snd (send_notifications w (the (watch_url w))
                      [(''last_checked'', PStr (now_utc_iso w))]
                      [(''method'', PStr ''test''), (''matched_keywords'', PList [PStr ''TEST''])]
                      fs)) = Inr ()
        \<longrightarrow> outcome (main w fs) = ForcedTest)
   \<and> (config_ok w \<and> \<not> force_notify w \<and> fs \<noteq> Some Undecodable
        \<and> (\<forall>k<3. request_failed (http_get w (the (watch_url w)) k))
        \<longrightarrow> outcome (main w fs) = NetworkFailure)"
proof -
  obtain tr fs' r where b: "main_body w fs = (tr, fs', r)"
    by (cases "main_body w fs") auto
  note m = main_of_body(3,4) [OF b]
  have two: "r = Inl (SysExit n) \<longleftrightarrow> \<not> config_ok w \<and> n = 2" for n
    using main_body_cases [of w fs] b by auto
  have 1: "exit_status (main w fs) =
     (case outcome (main w fs) of
        ConfigError \<Rightarrow> 2 | Interrupted \<Rightarrow> 130 | Fatal \<Rightarrow> 1 | _ \<Rightarrow> 0)"
  proof (cases r)
    case (Inr oc)
    have "oc \<noteq> ConfigError \<and> oc \<noteq> Interrupted \<and> oc \<noteq> Fatal"
      using main_body_cases [of w fs] b Inr by auto
    with m Inr show ?thesis by (cases oc) simp_all
  next
    case (Inl a)
    show ?thesis
    proof (cases a)
      case (SysExit n)
      with two [of n] Inl m show ?thesis by simp
    next
      case (Raised e)
      with Inl m show ?thesis by simp
    qed
  qed
  have 2: "outcome (main w fs) = ConfigError
        \<longleftrightarrow> \<not> truthy (watch_url w)
            \<or> (\<not> truthy (watch_selector w) \<and> watch_keywords w = None)"
  proof (cases r)
    case (Inr oc)
    have "oc \<noteq> ConfigError" "config_ok w"
      using main_body_cases [of w fs] b Inr by auto
    with m Inr show ?thesis by (auto simp: config_ok_def)
  next
    case (Inl a)
    show ?thesis
    proof (cases a)
      case (SysExit n)
      with two [of n] Inl m show ?thesis by (auto simp: config_ok_def)
    next
      case (Raised e)
      then have "config_ok w" using main_body_cases [of w fs] b Inl by auto
      with Raised Inl m show ?thesis by (auto simp: config_ok_def)
    qed
  qed
  have inr: "r = Inr oc \<Longrightarrow> oc \<noteq> NetworkFailure \<and> oc \<noteq> Interrupted \<and> oc \<noteq> Fatal" for oc
    using main_body_cases [of w fs] b by auto
  have 3: "outcome (main w fs) = NetworkFailure
        \<longleftrightarrow> (\<exists>e. snd (snd (main_body w fs)) = Inl (Raised e) \<and> is_RequestException e)"
    using m b inr by (auto split: sum.splits abort.splits if_splits)
  have 4: "outcome (main w fs) = Interrupted
        \<longleftrightarrow> snd (snd (main_body w fs)) = Inl (Raised KeyboardInterrupt)"
    using m b inr by (auto split: sum.splits abort.splits if_splits)
  have 5: "outcome (main w fs) = Fatal
        \<longleftrightarrow> (\<exists>e. snd (snd (main_body w fs)) = Inl (Raised e)
                  \<and> is_Exception e \<and> \<not> is_RequestException e)"
    using m b inr by (auto simp: is_Exception_iff split: sum.splits abort.splits if_splits)
  have 6: "outcome (main w fs) = ForcedTest"
    if h: "config_ok w \<and> force_notify w
        \<and> snd (snd (send_notifications w (the (watch_url w))
                      [(''last_checked'', PStr (now_utc_iso w))]
                      [(''method'', PStr ''test''), (''matched_keywords'', PList [PStr ''TEST''])]
                      fs)) = Inr ()"
  proof -
    obtain t where "send_notifications w (the (watch_url w))
                      [(''last_checked'', PStr (now_utc_iso w))]
                      [(''method'', PStr ''test''), (''matched_keywords'', PList [PStr ''TEST''])]
                      fs = (t, fs, Inr ())"
      using inertD [OF inert_send_notifications, of w "the (watch_url w)"
          "[(''last_checked'', PStr (now_utc_iso w))]"
          "[(''method'', PStr ''test''), (''matched_keywords'', PList [PStr ''TEST''])]" fs] h
      by auto
    then have "main_body w fs = (Log TestNotice # t, fs, Inr ForcedTest)"
      using h by (simp add: main_body_forced prog_defs)
    from main_of_body(3) [OF this] show ?thesis by simp
  qed
  have 7: "outcome (main w fs) = NetworkFailure"
    if h: "config_ok w \<and> \<not> force_notify w \<and> fs \<noteq> Some Undecodable
        \<and> (\<forall>k<3. request_failed (http_get w (the (watch_url w)) k))"
  proof -
    from h main_network_failure [of w fs]
    obtain t e where "is_RequestException e" "main_body w fs = (t, fs, Inl (Raised e))"
      by blast
    with main_of_body(3) [OF this(2)] show ?thesis by simp
  qed
  have 8: "outcome (main w fs) \<in> {ForcedTest, Baseline, Changed, Unchanged}
        \<longleftrightarrow> (\<exists>oc. snd (snd (main_body w fs)) = Inr oc)"
  proof (cases r)
    case (Inr oc)
    have "oc \<in> {ForcedTest, Baseline, Changed, Unchanged}"
      using main_body_cases [of w fs] b Inr by auto
    with m Inr b show ?thesis by simp
  next
    case (Inl a)
    with m b show ?thesis by (cases a) auto
  qed
  from 1 2 3 4 5 6 7 8 show ?thesis by blast
qed

theorem exit_status_of_run_witness:
  "exit_status (main quiet_world None) = 2
   \<and> exit_status (main interrupted_world None) = 130
   \<and> exit_status (main watch_world (Some (Doc (PList [])))) = 1
   \<and> exit_status (main offline_world None) = 0
   \<and> exit_status (main forced_world None) = 0
   \<and> exit_status (main watch_world None) = 0"
proof -
  have "\<not> truthy (watch_url quiet_world)"
    by (simp add: watch_url_def getenv_def)
  with exit_status_of_run [of quiet_world None]
  have 1: "exit_status (main quiet_world None) = 2" by simp
  from exit_status_of_run [of interrupted_world None] interrupted_body
  have 2: "exit_status (main interrupted_world None) = 130" by simp
  from exit_status_of_run [of watch_world "Some (Doc (PList []))"] list_state_body
  have 3: "exit_status (main watch_world (Some (Doc (PList [])))) = 1" by simp
  have "\<forall>k<3. request_failed (http_get offline_world (the (watch_url offline_world)) k)"
    by (simp add: offline_world_def)
  with exit_status_of_run [of offline_world None] config_ok_examples(2) force_notify_examples(2)
  have 4: "exit_status (main offline_world None) = 0" by simp
  have "snd (snd (send_notifications forced_world (the (watch_url forced_world))
                      [(''last_checked'', PStr (now_utc_iso forced_world))]
                      [(''method'', PStr ''test''), (''matched_keywords'', PList [PStr ''TEST''])]
                      None)) = Inr ()"
    by (rule quiet_notifications [OF no_channels(4,5,6), where ks = "[''TEST'']"])
       (simp_all add: dict_get_def)
  with exit_status_of_run [of forced_world None] config_ok_examples(4) force_notify_examples(5)
  have 5: "exit_status (main forced_world None) = 0" by simp
  from exit_status_of_run [of watch_world None] first_run_baseline
  have 6: "exit_status (main watch_world None) = 0" by simp
  from 1 2 3 4 5 6 show ?thesis by blast
qed

subsection \<open>The persisted fingerprint\<close>

lemma last_hash_after_runs:
  "last_hash (final_file fs ws) \<noteq> None
     \<longleftrightarrow> last_hash fs \<noteq> None \<or> (\<exists>r \<in> set (history fs ws). completed r)"
proof (induction ws arbitrary: fs)
  case Nil
  show ?case by simp
next
  case (Cons w ws)
  from main_run_cases [of w fs] Cons.IH [of "file_after (main w fs)"]
  show ?case by auto
qed

text \<open>
  Claim C2. Over any sequence of runs that starts with no state file, the persisted
  \<^verbatim>\<open>last_hash\<close> is set (present and not null) exactly when one of the runs has completed
  the check, that is, ended as Baseline, Changed or Unchanged; a test run or a run stopped
  by a network failure leaves the file alone. Starting from any state file, it is set
  after the runs exactly when it was set before or one of the runs completed the check; so
  once set it is set after every later run. A run that has not completed the check leaves
  the file as it found it.
\<close>

theorem last_hash_invariant:
  "(last_hash (final_file None ws) \<noteq> None \<longleftrightarrow> (\<exists>r \<in> set (history None ws). completed r))
   \<and> (last_hash (final_file fs ws) \<noteq> None
        \<longleftrightarrow> last_hash fs \<noteq> None \<or> (\<exists>r \<in> set (history fs ws). completed r))
   \<and> (last_hash fs \<noteq> None \<longrightarrow> last_hash (final_file fs ws) \<noteq> None)
   \<and> (file_after (main w fs) \<noteq> fs \<longrightarrow> completed (main w fs))"
  using last_hash_after_runs [of None ws] last_hash_after_runs [of fs ws] main_run_cases [of w fs]
  by (auto simp: last_hash_def)

theorem last_hash_invariant_witness:
  "last_hash (final_file None [watch_world]) \<noteq> None
   \<and> last_hash (final_file None [watch_world, offline_world, quiet_world]) \<noteq> None
   \<and> last_hash (final_file None [quiet_world, offline_world]) = None"
proof -
  have c: "completed (main watch_world None)"
    using first_run_baseline by (simp add: completed_def)
  have 1: "last_hash (final_file None [watch_world]) \<noteq> None"
    using last_hash_invariant [of "[watch_world]" None] c by simp
  have "last_hash (final_file (final_file None [watch_world]) [offline_world, quiet_world]) \<noteq> None"
    using last_hash_invariant [of "[offline_world, quiet_world]" "final_file None [watch_world]"] 1
    by blast
  then have 2: "last_hash (final_file None [watch_world, offline_world, quiet_world]) \<noteq> None"
    by simp
  have q: "\<not> completed (main quiet_world None)"
    using main_body_config_error [OF config_ok_examples(7), of None] main_of_body(2)
    by fastforce
  have "file_after (main quiet_world None) = None"
    using main_body_config_error [OF config_ok_examples(7), of None] main_of_body(1)
    by fastforce
  moreover have "\<not> completed (main offline_world None)" "file_after (main offline_world None) = None"
    using offline_run_stops
    by simp_all
  ultimately have 3: "last_hash (final_file None [quiet_world, offline_world]) = None"
    using last_hash_invariant [of "[quiet_world, offline_world]" None] q
    by simp
  from 1 2 3 show ?thesis by blast
qed

subsection \<open>Failures that end the run\<close>

text \<open>
  Claim C4, where the code departs from it. With \<^verbatim>\<open>SMTP_PORT\<close> set to the empty string
  and the messaging channel configured in full, line 148 raises \<^verbatim>\<open>ValueError\<close> out of
  \<^verbatim>\<open>send_email\<close>: the notifier raises, no message is posted, a test run exits with
  status 1, and a run that found a change exits with status 1 without saving it.
\<close>

theorem empty_port_stops_notifier:
  "getenv empty_port_world ''SMTP_PORT'' = Some []
   \<and> list_all truthy
       [getenv empty_port_world ''TWILIO_ACCOUNT_SID'', getenv empty_port_world ''TWILIO_AUTH_TOKEN'',
        getenv empty_port_world ''WHATSAPP_FROM'', getenv empty_port_world ''WHATSAPP_TO'']
   \<and> snd (snd (send_notifications empty_port_world ''https://example.org''
                  [(''last_checked'', PStr ''2024-05-01T12:00:00+00:00'')]
                  [(''method'', PStr ''keywords''), (''matched_keywords'', PList [PStr ''Sale''])]
                  None)) = Inl (Raised ValueError)
   \<and> (\<forall>msg. TwilioPost msg \<notin> set (fst (send_notifications empty_port_world
                  ''https://example.org''
                  [(''last_checked'', PStr ''2024-05-01T12:00:00+00:00'')]
                  [(''method'', PStr ''keywords''), (''matched_keywords'', PList [PStr ''Sale''])]
                  None)))
   \<and> exit_status (main empty_port_forced_world None) = 1
   \<and> exit_status (main empty_port_world (Some old_state)) = 1
   \<and> file_after (main empty_port_world (Some old_state)) = Some old_state"
proof -
  from port_failure [OF empty_port_examples(1), where ks = "[''Sale'']"
      and state = "[(''last_checked'', PStr ''2024-05-01T12:00:00+00:00'')]"
      and md = "[(''method'', PStr ''keywords''), (''matched_keywords'', PList [PStr ''Sale''])]"
      and url = "''https://example.org''" and fs = None]
  obtain body where n: "send_notifications empty_port_world ''https://example.org''
                  [(''last_checked'', PStr ''2024-05-01T12:00:00+00:00'')]
                  [(''method'', PStr ''keywords''), (''matched_keywords'', PList [PStr ''Sale''])]
                  None = ([Log (ChangeDetected body)], None, Inl (Raised ValueError))"
    by (auto simp: dict_get_def)
  from port_failure [OF empty_port_examples(2), where ks = "[''TEST'']"
      and state = "[(''last_checked'', PStr (now_utc_iso empty_port_forced_world))]"
      and md = "[(''method'', PStr ''test''), (''matched_keywords'', PList [PStr ''TEST''])]"
      and url = "the (watch_url empty_port_forced_world)" and fs = None]
  obtain body' where "send_notifications empty_port_forced_world
                  (the (watch_url empty_port_forced_world))
                  [(''last_checked'', PStr (now_utc_iso empty_port_forced_world))]
                  [(''method'', PStr ''test''), (''matched_keywords'', PList [PStr ''TEST''])]
                  None = ([Log (ChangeDetected body')], None, Inl (Raised ValueError))"
    by (auto simp: dict_get_def)
  then have "main_body empty_port_forced_world None
               = ([Log TestNotice, Log (ChangeDetected body')], None, Inl (Raised ValueError))"
    by (simp add: main_body_forced [OF config_ok_examples(5) force_notify_examples(6)] prog_defs)
  from exit_of_raise(1) [OF this]
  have forced: "exit_status (main empty_port_forced_world None) = 1" by simp
  have f: "fetch empty_port_world (the (watch_url empty_port_world)) 3 (Some old_state)
             = ([HttpGet ''https://example.org'' 0], Some old_state,
                Inr ''<p>huge sale today</p>'')"
    by (simp add: fetch_first_try http_get_examples watch_url_examples)
  let ?d = "AList.update ''last_checked'' (PStr (now_utc_iso empty_port_world))
              [(''last_hash'', PStr ''sha256:old''), (''last_match'', PStr ''before''),
               (''last_checked'', PStr ''2024-04-30T12:00:00+00:00'')]"
  let ?md = "[(''method'', PStr ''keywords''), (''total_keywords'', PInt 1),
         (''matched_keywords'', PList [PStr ''Sale'']), (''page_length'', PInt 15)]"
  from port_failure [OF empty_port_examples(1), where ks = "[''Sale'']" and state = ?d
      and md = ?md and url = "the (watch_url empty_port_world)" and fs = "Some old_state"]
  obtain body'' where "send_notifications empty_port_world (the (watch_url empty_port_world))
      ?d ?md (Some old_state)
        = ([Log (ChangeDetected body'')], Some old_state, Inl (Raised ValueError))"
    by (auto simp: dict_get_def)
  with main_body_check_eval [OF config_ok_examples(3) force_notify_examples(3) load_old_state f]
  have "main_body empty_port_world (Some old_state)
          = ([HttpGet ''https://example.org'' 0, Log (ChangeDetected body'')], Some old_state,
             Inl (Raised ValueError))"
    by (simp add: sale_signal [OF empty_port_settings(1,2,3)] detect_dict Let_def dict_get_def
          empty_port_settings(4))
  from exit_of_raise(1,3) [OF this]
  have changed: "exit_status (main empty_port_world (Some old_state)) = 1"
    "file_after (main empty_port_world (Some old_state)) = Some old_state"
    by simp_all
  from n forced changed empty_port_settings(5,6) show ?thesis by simp
qed

text \<open>
  Claim C8, where the code departs from it. A state file whose bytes are not UTF-8 makes
  \<^verbatim>\<open>load_state\<close> raise \<^verbatim>\<open>UnicodeDecodeError\<close>, which line 33 does not catch, and the
  run exits with status 1. A state file that holds the JSON list \<^verbatim>\<open>[]\<close> is returned as
  it is, not the default state, and line 295 then raises \<^verbatim>\<open>TypeError\<close>: status 1 again.
\<close>

theorem corrupt_state_is_fatal:
  "load_state (Some Undecodable) = ([], Some Undecodable, Inl (Raised UnicodeDecodeError))
   \<and> exit_status (main watch_world (Some Undecodable)) = 1
   \<and> outcome (main watch_world (Some Undecodable)) = Fatal
   \<and> load_state (Some (Doc (PList []))) = ([], Some (Doc (PList [])), Inr (PList []))
   \<and> PList [] \<noteq> default_state
   \<and> exit_status (main watch_world (Some (Doc (PList [])))) = 1
   \<and> outcome (main watch_world (Some (Doc (PList [])))) = Fatal"
proof -
  obtain tr1 fs1 where b1: "main_body watch_world (Some Undecodable)
                              = (tr1, fs1, Inl (Raised UnicodeDecodeError))"
    using undecodable_body by (cases "main_body watch_world (Some Undecodable)") auto
  obtain tr2 fs2 where b2: "main_body watch_world (Some (Doc (PList [])))
                              = (tr2, fs2, Inl (Raised TypeError))"
    using list_state_body by (cases "main_body watch_world (Some (Doc (PList [])))") auto
  from exit_of_raise(1,2) [OF b1] exit_of_raise(1,2) [OF b2] show ?thesis
    by (simp add: load_state_result default_state_def)
qed

end
